theory Spec2Isabelle
  imports Main "HOL-Library.Sublist"
begin

section \<open>Python values and exceptions\<close>

text \<open>
  Exceptions are values. Every class below is a subclass of Python's \<open>Exception\<close>, so an
  \<open>except Exception\<close> clause catches each of them. The argument is the text that
  \<open>str(e)\<close> returns. \<open>RemoteException\<close> and its four subclasses are declared in
  \<open>sunbeam/microstackd/service.py\<close>; the others come from Python, requests,
  subprocess and the terraform helper. The texts of the interpreter's own exceptions
  are shortened.
\<close>

datatype exn =
    RemoteException string
  | NodeAlreadyExistsException string
  | NodeJoinException string
  | TokenAlreadyGeneratedException string
  | ClusterServiceUnavailableException string
  | HTTPError string
  | JSONDecodeError string
  | AttributeError string
  | TypeError string
  | NameError string
  | KeyError string
  | CalledProcessError string
  | TerraformException string
  | OtherException string

fun str_exn :: "exn \<Rightarrow> string" where
  "str_exn (RemoteException m) = m"
| "str_exn (NodeAlreadyExistsException m) = m"
| "str_exn (NodeJoinException m) = m"
| "str_exn (TokenAlreadyGeneratedException m) = m"
| "str_exn (ClusterServiceUnavailableException m) = m"
| "str_exn (HTTPError m) = m"
| "str_exn (JSONDecodeError m) = m"
| "str_exn (AttributeError m) = m"
| "str_exn (TypeError m) = m"
| "str_exn (NameError m) = m"
| "str_exn (KeyError m) = m"
| "str_exn (CalledProcessError m) = m"
| "str_exn (TerraformException m) = m"
| "str_exn (OtherException m) = m"

text \<open>The value that \<open>json.loads\<close> returns: \<open>None\<close>, a bool, a number, a str, a list or a dict.\<close>

datatype json =
    JNull
  | JBool bool
  | JNum int
  | JStr string
  | JArr "json list"
  | JObj "(string \<times> json) list"

text \<open>
  Python's \<open>needle in haystack\<close> for two strings: \<open>needle\<close> occurs as a contiguous run of
  \<open>haystack\<close>.
\<close>

fun str_in :: "string \<Rightarrow> string \<Rightarrow> bool" where
  "str_in needle [] = (needle = [])"
| "str_in needle (c # cs) = (prefix needle (c # cs) \<or> str_in needle cs)"

text \<open>
  \<open>needle in value\<close> where \<open>needle\<close> is a str and \<open>value\<close> came out of \<open>json.loads\<close>:
  a substring test on a str, an element test on a list, a key test on a dict, and a
  \<open>TypeError\<close> on \<open>None\<close>, a bool or a number.
\<close>

fun py_in :: "string \<Rightarrow> json \<Rightarrow> exn + bool" where
  "py_in needle (JStr s) = Inr (str_in needle s)"
| "py_in needle (JArr xs) = Inr (JStr needle \<in> set xs)"
| "py_in needle (JObj kvs) = Inr (needle \<in> fst ` set kvs)"
| "py_in needle JNull = Inl (TypeError ''argument of type 'NoneType' is not iterable'')"
| "py_in needle (JBool b) = Inl (TypeError ''argument of type 'bool' is not iterable'')"
| "py_in needle (JNum n) = Inl (TypeError ''argument of type 'int' is not iterable'')"

text \<open>\<open>value.get(key)\<close>: defined on a dict only, \<open>None\<close> for a missing key.\<close>

fun py_get :: "json \<Rightarrow> string \<Rightarrow> exn + json" where
  "py_get (JObj kvs) key = Inr (case map_of kvs key of None \<Rightarrow> JNull | Some v \<Rightarrow> v)"
| "py_get JNull key = Inl (AttributeError ''NoneType object has no attribute get'')"
| "py_get (JBool b) key = Inl (AttributeError ''bool object has no attribute get'')"
| "py_get (JNum n) key = Inl (AttributeError ''int object has no attribute get'')"
| "py_get (JStr s) key = Inl (AttributeError ''str object has no attribute get'')"
| "py_get (JArr xs) key = Inl (AttributeError ''list object has no attribute get'')"

text \<open>
  \<open>value[key]\<close> with a str key, \<open>value.keys()\<close> and \<open>value.items()\<close> (both as the list of
  pairs), \<open>value.get(key, {})\<close>, and the truth value of a decoded value.
\<close>

fun py_subscript :: "json \<Rightarrow> string \<Rightarrow> exn + json" where
  "py_subscript (JObj kvs) key =
     (case map_of kvs key of None \<Rightarrow> Inl (KeyError key) | Some v \<Rightarrow> Inr v)"
| "py_subscript JNull key = Inl (TypeError ''NoneType object is not subscriptable'')"
| "py_subscript (JBool b) key = Inl (TypeError ''bool object is not subscriptable'')"
| "py_subscript (JNum n) key = Inl (TypeError ''int object is not subscriptable'')"
| "py_subscript (JStr s) key = Inl (TypeError ''string indices must be integers'')"
| "py_subscript (JArr xs) key = Inl (TypeError ''list indices must be integers or slices, not str'')"

fun py_keys :: "json \<Rightarrow> exn + (string \<times> json) list" where
  "py_keys (JObj kvs) = Inr kvs"
| "py_keys JNull = Inl (AttributeError ''NoneType object has no attribute keys'')"
| "py_keys (JBool b) = Inl (AttributeError ''bool object has no attribute keys'')"
| "py_keys (JNum n) = Inl (AttributeError ''int object has no attribute keys'')"
| "py_keys (JStr s) = Inl (AttributeError ''str object has no attribute keys'')"
| "py_keys (JArr xs) = Inl (AttributeError ''list object has no attribute keys'')"

fun py_items :: "json \<Rightarrow> exn + (string \<times> json) list" where
  "py_items (JObj kvs) = Inr kvs"
| "py_items JNull = Inl (AttributeError ''NoneType object has no attribute items'')"
| "py_items (JBool b) = Inl (AttributeError ''bool object has no attribute items'')"
| "py_items (JNum n) = Inl (AttributeError ''int object has no attribute items'')"
| "py_items (JStr s) = Inl (AttributeError ''str object has no attribute items'')"
| "py_items (JArr xs) = Inl (AttributeError ''list object has no attribute items'')"

fun py_get_dict :: "json \<Rightarrow> string \<Rightarrow> exn + json" where
  "py_get_dict (JObj kvs) key = Inr (case map_of kvs key of None \<Rightarrow> JObj [] | Some v \<Rightarrow> v)"
| "py_get_dict JNull key = Inl (AttributeError ''NoneType object has no attribute get'')"
| "py_get_dict (JBool b) key = Inl (AttributeError ''bool object has no attribute get'')"
| "py_get_dict (JNum n) key = Inl (AttributeError ''int object has no attribute get'')"
| "py_get_dict (JStr s) key = Inl (AttributeError ''str object has no attribute get'')"
| "py_get_dict (JArr xs) key = Inl (AttributeError ''list object has no attribute get'')"

fun py_truthy :: "json \<Rightarrow> bool" where
  "py_truthy JNull = False"
| "py_truthy (JBool b) = b"
| "py_truthy (JNum n) = (n \<noteq> 0)"
| "py_truthy (JStr s) = (s \<noteq> [])"
| "py_truthy (JArr xs) = (xs \<noteq> [])"
| "py_truthy (JObj kvs) = (kvs \<noteq> [])"

section \<open>The remote service client: \<open>sunbeam/microstackd/service.py\<close>\<close>

text \<open>
  A response of the requests library as \<open>_request\<close> reads it: \<open>raise_for_status\<close> is the
  outcome of \<open>response.raise_for_status()\<close> (\<open>Some e\<close> when it raises the \<open>HTTPError\<close> \<open>e\<close>),
  \<open>response_text\<close> is the body \<open>response.text\<close>, and \<open>loads\<close> is what \<open>json.loads\<close> makes of the body (\<open>response.json()\<close>
  decodes the same body).
\<close>

record Response =
  raise_for_status :: "exn option"
  response_text :: string
  loads :: "exn + json"

definition DEFAULT_SCHEME :: string where
  "DEFAULT_SCHEME = ''http+unix://''"

text \<open>
  \<open>BaseService._request\<close>. The session's \<open>request\<close> method and the quoted socket path are
  parameters; the \<open>if\<close>/\<open>elif\<close> chain is the source's, in the source's order.
\<close>

definition request_url :: "string \<Rightarrow> string \<Rightarrow> string" where
  "request_url netloc path0 =
    (let path = (if prefix ''/'' path0 then tl path0 else path0)
     in DEFAULT_SCHEME @ netloc @ ''/'' @ path)"

definition request ::
  "(string \<Rightarrow> string \<Rightarrow> Response) \<Rightarrow> string \<Rightarrow> string \<Rightarrow> string \<Rightarrow> exn + json" where
  "request session netloc method path0 =
    (let url = request_url netloc path0;
         response = session method url
     in case raise_for_status response of
          None \<Rightarrow> loads response
        | Some e \<Rightarrow>
            (case loads response of
               Inl x \<Rightarrow> Inl x
             | Inr body \<Rightarrow>
                 (case py_get body ''error'' of
                    Inl x \<Rightarrow> Inl x
                  | Inr error \<Rightarrow>
                      (case py_in ''remote with name'' error of
                         Inl x \<Rightarrow> Inl x
                       | Inr True \<Rightarrow>
                           Inl (NodeAlreadyExistsException
                                  ''Already node exists in the microstack cluster'')
                       | Inr False \<Rightarrow>
                      (case py_in ''Failed to join cluster with the given join token'' error of
                         Inl x \<Rightarrow> Inl x
                       | Inr True \<Rightarrow>
                           Inl (NodeJoinException
                                  ''Join node to cluster failed with the given token'')
                       | Inr False \<Rightarrow>
                      (case py_in ''UNIQUE constraint failed: internal_token_records.name'' error of
                         Inl x \<Rightarrow> Inl x
                       | Inr True \<Rightarrow>
                           Inl (TokenAlreadyGeneratedException
                                  ''Token already generated for the node'')
                       | Inr False \<Rightarrow>
                      (case py_in ''Daemon not yet initialized'' error of
                         Inl x \<Rightarrow> Inl x
                       | Inr True \<Rightarrow>
                           Inl (ClusterServiceUnavailableException
                                  ''Microstack Cluster not initialized'')
                       | Inr False \<Rightarrow> Inl e)))))))"

text \<open>
  The table of the specification, section 7 and 4.2: an ordered list of rules, pattern and
  fault, and the classification "first match wins, no match re-raises the transport error".
\<close>

definition error_table :: "(string \<times> exn) list" where
  "error_table =
    [(''remote with name'',
        NodeAlreadyExistsException ''Already node exists in the microstack cluster''),
     (''Failed to join cluster with the given join token'',
        NodeJoinException ''Join node to cluster failed with the given token''),
     (''UNIQUE constraint failed: internal_token_records.name'',
        TokenAlreadyGeneratedException ''Token already generated for the node''),
     (''Daemon not yet initialized'',
        ClusterServiceUnavailableException ''Microstack Cluster not initialized'')]"

definition classify_spec :: "exn \<Rightarrow> string \<Rightarrow> exn" where
  "classify_spec e error =
    (case find (\<lambda>rule. str_in (fst rule) error) error_table of
       Some rule \<Rightarrow> snd rule
     | None \<Rightarrow> e)"

section \<open>Results of steps\<close>

text \<open>
  Modelled from the spec: \<open>ResultType\<close> and \<open>Result\<close> of \<open>sunbeam/jobs/common.py\<close>, which is
  not among the sources. Section 3 of the specification: a Result is the tagged outcome of
  a Step, one of COMPLETED, SKIPPED, FAILED, carrying an optional message or payload. The
  sources build a Result with a tag alone, with a tag and a str, and with a tag and a list
  of str (\<open>ModelStatusStep.run\<close>).
\<close>

datatype ResultType = COMPLETED | FAILED | SKIPPED

datatype payload = NoMessage | Str string | StrList "string list"

record Result =
  result_type :: ResultType
  message :: payload

definition mk_Result :: "ResultType \<Rightarrow> payload \<Rightarrow> Result" where
  "mk_Result t m = \<lparr>result_type = t, message = m\<rparr>"

section \<open>The cluster steps: \<open>sunbeam/commands/clusterd.py\<close>\<close>

text \<open>
  The cluster client of \<open>sunbeam/microstackd/client.py\<close> is not among the sources. A step
  sees it through four calls, each of which returns a value or raises; the record holds what
  each call does when the step makes it. A cluster member is a dict, an association list
  from keys to decoded values.
\<close>

type_synonym member = "(string \<times> json) list"

record clusterClient =
  get_cluster_members :: "exn + member list"
  bootstrap_cluster :: "string \<Rightarrow> string \<Rightarrow> exn + unit"
  add_node :: "string \<Rightarrow> string \<Rightarrow> exn + string"
  join_node :: "string \<Rightarrow> string \<Rightarrow> string \<Rightarrow> exn + unit"

text \<open>\<open>member.get('name')\<close> on a dict.\<close>

definition member_get :: "member \<Rightarrow> string \<Rightarrow> json" where
  "member_get member key = (case map_of member key of None \<Rightarrow> JNull | Some v \<Rightarrow> v)"

text \<open>
  The body shared, word for word, by the three \<open>is_skip\<close> methods: list the members, answer
  whether the name is among them, and answer \<open>False\<close> when the listing raises
  \<open>ClusterServiceUnavailableException\<close>. Any other exception leaves the method.
\<close>

definition probe_membership :: "clusterClient \<Rightarrow> string \<Rightarrow> exn + bool" where
  "probe_membership client n =
    (case get_cluster_members client of
       Inr members \<Rightarrow>
         (let member_names = map (\<lambda>member. member_get member ''name'') members
          in if JStr n \<in> set member_names then Inr True else Inr False)
     | Inl (ClusterServiceUnavailableException m) \<Rightarrow> Inr False
     | Inl e \<Rightarrow> Inl e)"

record ClusterInitStep =
  init_port :: nat
  init_client :: clusterClient
  init_fqdn :: string
  init_ip :: string

record ClusterAddNodeStep =
  add_node_name :: string
  add_role :: string
  add_client :: clusterClient

record ClusterJoinNodeStep =
  join_port :: nat
  join_client :: clusterClient
  join_token :: string
  join_fqdn :: string
  join_ip :: string

text \<open>\<open>str(n)\<close> of a natural number, for \<open>f"{self.ip}:{self.port}"\<close>.\<close>

definition digit_char :: "nat \<Rightarrow> char" where
  "digit_char d = ''0123456789'' ! d"

function str_nat :: "nat \<Rightarrow> string" where
  "str_nat n =
     (if n < 10 then [digit_char n] else str_nat (n div 10) @ [digit_char (n mod 10)])"
  by pat_completeness auto
termination
  by (relation "measure id") auto

declare str_nat.simps [simp del]

definition ClusterInitStep_is_skip :: "ClusterInitStep \<Rightarrow> exn + bool" where
  "ClusterInitStep_is_skip self = probe_membership (init_client self) (init_fqdn self)"

definition ClusterInitStep_run :: "ClusterInitStep \<Rightarrow> exn + Result" where
  "ClusterInitStep_run self =
    (case bootstrap_cluster (init_client self) (init_fqdn self)
            (init_ip self @ '':'' @ str_nat (init_port self)) of
       Inr u \<Rightarrow> Inr (mk_Result COMPLETED NoMessage)
     | Inl e \<Rightarrow> Inr (mk_Result FAILED (Str (str_exn e))))"

definition ClusterAddNodeStep_is_skip :: "ClusterAddNodeStep \<Rightarrow> exn + bool" where
  "ClusterAddNodeStep_is_skip self = probe_membership (add_client self) (add_node_name self)"

definition ClusterAddNodeStep_run :: "ClusterAddNodeStep \<Rightarrow> exn + Result" where
  "ClusterAddNodeStep_run self =
    (case add_node (add_client self) (add_node_name self) (add_role self) of
       Inr token \<Rightarrow> Inr (mk_Result COMPLETED (Str token))
     | Inl (TokenAlreadyGeneratedException m) \<Rightarrow>
         Inr (mk_Result FAILED (Str (str_exn (TokenAlreadyGeneratedException m))))
     | Inl e \<Rightarrow> Inl e)"

definition ClusterJoinNodeStep_is_skip :: "ClusterJoinNodeStep \<Rightarrow> exn + bool" where
  "ClusterJoinNodeStep_is_skip self = probe_membership (join_client self) (join_fqdn self)"

text \<open>
  \<open>ClusterJoinNodeStep.run\<close>. After a join that succeeds the method evaluates
  \<open>Result(result_type=ResultType.COMPLETED, message=token)\<close>; the method has no local
  \<open>token\<close> and the module no global of that name (the attribute is \<open>self.token\<close>), so the
  name lookup raises \<open>NameError\<close>, which the \<open>except\<close> clause for the two join faults does
  not catch.
\<close>

definition ClusterJoinNodeStep_run :: "ClusterJoinNodeStep \<Rightarrow> exn + Result" where
  "ClusterJoinNodeStep_run self =
    (case join_node (join_client self) (join_fqdn self)
            (join_ip self @ '':'' @ str_nat (join_port self)) (join_token self) of
       Inr u \<Rightarrow> Inl (NameError ''name 'token' is not defined'')
     | Inl (NodeAlreadyExistsException m) \<Rightarrow>
         Inr (mk_Result FAILED (Str (str_exn (NodeAlreadyExistsException m))))
     | Inl (NodeJoinException m) \<Rightarrow>
         Inr (mk_Result FAILED (Str (str_exn (NodeJoinException m))))
     | Inl e \<Rightarrow> Inl e)"

section \<open>The workload controller client: \<open>JujuHelper\<close> of \<open>sunbeam/commands/juju.py\<close>\<close>

text \<open>
  The helper holds one field, \<open>controller\<close>, \<open>None\<close> until a method first needs the
  connection. The libjuju \<open>Controller\<close> object is opaque (and truthy).
\<close>

datatype Controller = Controller

record JujuHelper =
  controller :: "Controller option"

definition JujuHelper_init :: JujuHelper where
  "JujuHelper_init = \<lparr>controller = None\<rparr>"

text \<open>
  The statements that open every method but \<open>disconnect_controller\<close>:
  \<open>if not self.controller: self.controller = Controller(); await self.controller.connect()\<close>.
  The field is assigned before \<open>connect\<close> runs, so it stays set when \<open>connect\<close> raises.
  \<open>connect\<close> is what the call does if it is made.
\<close>

definition lazy_connect :: "JujuHelper \<Rightarrow> exn + unit \<Rightarrow> (exn + unit) \<times> JujuHelper" where
  "lazy_connect self connect =
    (case controller self of
       None \<Rightarrow> (connect, self\<lparr>controller := Some Controller\<rparr>)
     | Some c \<Rightarrow> (Inr (), self))"

text \<open>
  \<open>disconnect_controller\<close>: \<open>await self.controller.disconnect()\<close>, with no test of the field.
  On \<open>None\<close> the attribute lookup raises.
\<close>

definition disconnect_controller :: "JujuHelper \<Rightarrow> exn + unit \<Rightarrow> exn + unit" where
  "disconnect_controller self disconnect =
    (case controller self of
       None \<Rightarrow> Inl (AttributeError ''NoneType object has no attribute disconnect'')
     | Some c \<Rightarrow> disconnect)"

definition add_model :: "JujuHelper \<Rightarrow> exn + unit \<Rightarrow> exn + unit \<Rightarrow> bool \<times> JujuHelper" where
  "add_model self connect controller_add_model =
    (case lazy_connect self connect of
       (Inl e, self') \<Rightarrow> (False, self')
     | (Inr u, self') \<Rightarrow>
         (case controller_add_model of
            Inl e \<Rightarrow> (False, self')
          | Inr v \<Rightarrow> (True, self')))"

definition get_models :: "JujuHelper \<Rightarrow> exn + unit \<Rightarrow> exn + string list \<Rightarrow> string list \<times> JujuHelper" where
  "get_models self connect list_models =
    (case lazy_connect self connect of
       (Inl e, self') \<Rightarrow> ([], self')
     | (Inr u, self') \<Rightarrow>
         (case list_models of
            Inl e \<Rightarrow> ([], self')
          | Inr models \<Rightarrow> (models, self')))"

subsection \<open>\<open>get_model_status\<close>\<close>

text \<open>
  A Python dict of str keys in insertion order: assigning to a key that is present keeps
  its place, a new key goes last.
\<close>

fun dict_set :: "string \<Rightarrow> 'v \<Rightarrow> (string \<times> 'v) list \<Rightarrow> (string \<times> 'v) list" where
  "dict_set k v [] = [(k, v)]"
| "dict_set k v (p # ps) = (if fst p = k then (k, v) # ps else p # dict_set k v ps)"

text \<open>
  The libjuju model as the method reads it. \<open>app_keys\<close> is \<open>model.applications.keys()\<close>
  when the method starts, in the order in which the set built from it is iterated.
  libjuju updates \<open>model.applications\<close> while the method sleeps: \<open>app_status n a\<close> is the
  status of application \<open>a\<close> at poll number \<open>n\<close> (the first poll is number 0), \<open>None\<close> when
  \<open>model.applications.get(a, None)\<close> is \<open>None\<close> then.
\<close>

record Model =
  app_keys :: "string list"
  app_status :: "nat \<Rightarrow> string \<Rightarrow> string option"

text \<open>The \<open>for application in apps\<close> loop of one poll, on the pair of \<open>apps_status\<close> and \<open>apps_active\<close>.\<close>

definition poll_apps ::
  "string list \<Rightarrow> (string \<Rightarrow> string option) \<Rightarrow> (string \<times> string) list \<times> string set
    \<Rightarrow> (string \<times> string) list \<times> string set" where
  "poll_apps apps applications acc =
    fold (\<lambda>application (apps_status, apps_active).
            case applications application of
              None \<Rightarrow> (apps_status, apps_active)
            | Some st \<Rightarrow>
                (dict_set application st apps_status,
                 if st = ''active'' then insert application apps_active else apps_active))
         apps acc"

text \<open>
  What the method reports: the dict it returns, the number of polls it made (each after a
  sleep of 1.0) and whether it logged the TIMEOUT line.
\<close>

record status_report =
  apps_status :: "(string \<times> string) list"
  polls :: nat
  timeout_logged :: bool

text \<open>
  The \<open>while True\<close> loop. \<open>elapsed n\<close> is the value of \<open>int(time.time() - start)\<close> at poll
  \<open>n\<close>, after the sleep of that poll. The loop has no bound of its own: a run that never
  leaves it is \<open>None\<close>.
\<close>

partial_function (option) status_loop ::
  "string list \<Rightarrow> (nat \<Rightarrow> string \<Rightarrow> string option) \<Rightarrow> (nat \<Rightarrow> int) \<Rightarrow> int \<Rightarrow> nat
    \<Rightarrow> (string \<times> string) list \<times> string set \<Rightarrow> status_report option" where
  "status_loop apps status elapsed timeout n acc =
    (let timed_out = elapsed n > timeout;
         acc' = poll_apps apps (status n) acc
     in if length apps = card (snd acc')
        then Some \<lparr>apps_status = fst acc', polls = Suc n, timeout_logged = False\<rparr>
        else if timed_out
        then Some \<lparr>apps_status = fst acc', polls = Suc n, timeout_logged = (timeout \<noteq> 0)\<rparr>
        else status_loop apps status elapsed timeout (Suc n) acc')"

text \<open>
  \<open>get_model_status\<close>: connect if needed, get the model, poll. An exception of \<open>connect\<close>
  or \<open>get_model\<close> is logged and the empty dict is returned.
\<close>

definition get_model_status ::
  "JujuHelper \<Rightarrow> exn + unit \<Rightarrow> exn + Model \<Rightarrow> (nat \<Rightarrow> int) \<Rightarrow> int
    \<Rightarrow> (status_report \<times> JujuHelper) option" where
  "get_model_status self connect get_model elapsed timeout =
    (case lazy_connect self connect of
       (Inl e, self') \<Rightarrow>
         Some (\<lparr>apps_status = [], polls = 0, timeout_logged = False\<rparr>, self')
     | (Inr u, self') \<Rightarrow>
         (case get_model of
            Inl e \<Rightarrow> Some (\<lparr>apps_status = [], polls = 0, timeout_logged = False\<rparr>, self')
          | Inr model \<Rightarrow>
              (case status_loop (remdups (app_keys model)) (app_status model) elapsed timeout 0
                      ([], {}) of
                 None \<Rightarrow> None
               | Some report \<Rightarrow> Some (report, self'))))"

text \<open>
  The pair of \<open>apps_status\<close> and \<open>apps_active\<close> after the first \<open>n\<close> polls of a model, and
  the two tests that end the loop at poll \<open>n\<close>: every known application has been seen
  active in some poll up to \<open>n\<close>, or \<open>int(time.time() - start) > timeout\<close>.
\<close>

primrec polled :: "Model \<Rightarrow> nat \<Rightarrow> (string \<times> string) list \<times> string set" where
  "polled model 0 = ([], {})"
| "polled model (Suc n) =
     poll_apps (remdups (app_keys model)) (app_status model n) (polled model n)"

definition all_seen_active :: "Model \<Rightarrow> nat \<Rightarrow> bool" where
  "all_seen_active model n =
     (\<forall>a \<in> set (app_keys model). \<exists>i \<le> n. app_status model i a = Some ''active'')"

definition stops_at :: "Model \<Rightarrow> (nat \<Rightarrow> int) \<Rightarrow> int \<Rightarrow> nat \<Rightarrow> bool" where
  "stops_at model elapsed timeout n = (all_seen_active model n \<or> elapsed n > timeout)"

text \<open>
  A model whose one application never leaves the status "waiting", and a clock on which
  one whole second has passed at each poll.
\<close>

definition waiting_model :: Model where
  "waiting_model =
     \<lparr>app_keys = [''keystone''],
      app_status = (\<lambda>n a. if a = ''keystone'' then Some ''waiting'' else None)\<rparr>"

definition ticking :: "nat \<Rightarrow> int" where
  "ticking n = int n + 1"

text \<open>A model whose one application is "waiting" at the first poll and "active" from the second on.\<close>

definition converging_model :: Model where
  "converging_model =
     \<lparr>app_keys = [''keystone''],
      app_status = (\<lambda>n a. if a = ''keystone''
                            then (if n = 0 then Some ''waiting'' else Some ''active'')
                            else None)\<rparr>"

text \<open>A response with status 500 whose error text holds two of the patterns.\<close>

definition two_pattern_response :: Response where
  "two_pattern_response =
     \<lparr>raise_for_status = Some (HTTPError ''500 Server Error''),
      response_text = [],
      loads = Inr (JObj [(''error'',
                JStr ''Daemon not yet initialized: remote with name n1'')])\<rparr>"

subsection \<open>\<open>destroy_model\<close>\<close>

text \<open>What the wait of \<open>destroy_model\<close> does, in order: a call of \<open>get_models\<close>, a sleep.\<close>

datatype wait_event = GetModels | Sleep nat

text \<open>
  The loop \<open>for i in range(0, 30)\<close> with its \<open>else\<close> clause, over the list of the values
  of \<open>i\<close> still to come. \<open>list_models i\<close> is what \<open>controller.list_models()\<close> does in round
  \<open>i\<close>. The helper was connected before the loop, and \<open>get_models\<close> is given the
  \<open>connect\<close> of the call all the same.
\<close>

fun wait_removed ::
  "string \<Rightarrow> exn + unit \<Rightarrow> (nat \<Rightarrow> exn + string list) \<Rightarrow> JujuHelper \<Rightarrow> nat list
    \<Rightarrow> (bool \<times> wait_event list) \<times> JujuHelper" where
  "wait_removed model_name connect list_models self [] = ((False, []), self)"
| "wait_removed model_name connect list_models self (i # rest) =
    (case get_models self connect (list_models i) of
       (models, self') \<Rightarrow>
         if model_name \<notin> set models then ((True, [GetModels]), self')
         else (case wait_removed model_name connect list_models self' rest of
                 ((r, evs), self'') \<Rightarrow> ((r, GetModels # Sleep 10 # evs), self'')))"

text \<open>
  \<open>destroy_model\<close>. \<open>destroy_models\<close> is what the controller's call of that name does.
  Any exception is logged and answered with \<open>False\<close>.
\<close>

definition destroy_model ::
  "JujuHelper \<Rightarrow> exn + unit \<Rightarrow> exn + unit \<Rightarrow> (nat \<Rightarrow> exn + string list) \<Rightarrow> string \<Rightarrow> bool
    \<Rightarrow> (bool \<times> wait_event list) \<times> JujuHelper" where
  "destroy_model self connect destroy_models list_models model_name wait =
    (case lazy_connect self connect of
       (Inl e, self') \<Rightarrow> ((False, []), self')
     | (Inr u, self') \<Rightarrow>
         (case destroy_models of
            Inl e \<Rightarrow> ((False, []), self')
          | Inr v \<Rightarrow>
              if wait then wait_removed model_name connect list_models self' [0..<30]
              else ((True, []), self')))"

text \<open>The model list that \<open>get_models\<close> hands to round \<open>i\<close> of the wait.\<close>

definition models_at :: "(nat \<Rightarrow> exn + string list) \<Rightarrow> nat \<Rightarrow> string list" where
  "models_at list_models i = (case list_models i of Inl e \<Rightarrow> [] | Inr models \<Rightarrow> models)"

text \<open>A controller that lists the model in rounds 0 and 1 and no longer in round 2.\<close>

definition gone_after_two :: "nat \<Rightarrow> exn + string list" where
  "gone_after_two i = (if i < 2 then Inr [''controller'', ''openstack''] else Inr [''controller''])"

subsection \<open>Example clients\<close>

text \<open>
  A cluster daemon that is not initialized, one that has issued the token of the node
  already, one on which every call succeeds, and one that answers with an error text no
  rule matches (the fault is the transport error).
\<close>

definition cold_client :: clusterClient where
  "cold_client =
     \<lparr>get_cluster_members =
        Inl (ClusterServiceUnavailableException ''Microstack Cluster not initialized''),
      bootstrap_cluster = (\<lambda>n a. Inr ()),
      add_node = (\<lambda>n r.
        Inl (ClusterServiceUnavailableException ''Microstack Cluster not initialized'')),
      join_node = (\<lambda>n a t.
        Inl (ClusterServiceUnavailableException ''Microstack Cluster not initialized''))\<rparr>"

definition token_issued_client :: clusterClient where
  "token_issued_client =
     \<lparr>get_cluster_members = Inr [[(''name'', JStr ''node-a'')]],
      bootstrap_cluster = (\<lambda>n a. Inr ()),
      add_node = (\<lambda>n r.
        Inl (TokenAlreadyGeneratedException ''Token already generated for the node'')),
      join_node = (\<lambda>n a t. Inr ())\<rparr>"

definition healthy_client :: clusterClient where
  "healthy_client =
     \<lparr>get_cluster_members = Inr [[(''name'', JStr ''node-a'')]],
      bootstrap_cluster = (\<lambda>n a. Inr ()),
      add_node = (\<lambda>n r. Inr ''T''),
      join_node = (\<lambda>n a t. Inr ())\<rparr>"

definition unclassified_client :: clusterClient where
  "unclassified_client =
     \<lparr>get_cluster_members = Inr [[(''name'', JStr ''node-a'')]],
      bootstrap_cluster = (\<lambda>n a. Inl (HTTPError ''500 Server Error'')),
      add_node = (\<lambda>n r. Inl (HTTPError ''500 Server Error'')),
      join_node = (\<lambda>n a t. Inl (HTTPError ''500 Server Error''))\<rparr>"

text \<open>A controller that lists the model in every round.\<close>

definition never_gone :: "nat \<Rightarrow> exn + string list" where
  "never_gone i = Inr [''controller'', ''openstack'']"

section \<open>The remaining methods of \<open>JujuHelper\<close>\<close>

text \<open>
  \<open>get_model_status_full\<close> has no \<open>try\<close>: what \<open>connect\<close>, \<open>get_model\<close> and \<open>get_status\<close>
  raise leaves the method. The status is kept as the text that \<open>to_json()\<close> gives.
\<close>

definition get_model_status_full ::
  "JujuHelper \<Rightarrow> exn + unit \<Rightarrow> exn + unit \<Rightarrow> exn + string \<Rightarrow> (exn + string) \<times> JujuHelper" where
  "get_model_status_full self connect get_model get_status =
    (case lazy_connect self connect of
       (Inl e, self') \<Rightarrow> (Inl e, self')
     | (Inr u, self') \<Rightarrow>
         (case get_model of
            Inl e \<Rightarrow> (Inl e, self')
          | Inr v \<Rightarrow> (get_status, self')))"

text \<open>
  \<open>deploy_bundle\<close> and \<open>wait_until_active\<close> end in \<open>model.block_until\<close>, which may wait for
  ever: \<open>block_until\<close> is \<open>None\<close> when it does, and then the method does not return.
\<close>

definition deploy_bundle ::
  "JujuHelper \<Rightarrow> exn + unit \<Rightarrow> exn + unit \<Rightarrow> exn + unit \<Rightarrow> (exn + unit) option
    \<Rightarrow> (bool \<times> JujuHelper) option" where
  "deploy_bundle self connect get_model deploy block_until =
    (case lazy_connect self connect of
       (Inl e, self') \<Rightarrow> Some (False, self')
     | (Inr u, self') \<Rightarrow>
         (case get_model of
            Inl e \<Rightarrow> Some (False, self')
          | Inr v \<Rightarrow>
              (case deploy of
                 Inl e \<Rightarrow> Some (False, self')
               | Inr applications \<Rightarrow>
                   (case block_until of
                      None \<Rightarrow> None
                    | Some (Inl e) \<Rightarrow> Some (False, self')
                    | Some (Inr x) \<Rightarrow> Some (True, self')))))"

definition wait_until_active ::
  "JujuHelper \<Rightarrow> exn + unit \<Rightarrow> exn + unit \<Rightarrow> (exn + unit) option
    \<Rightarrow> ((exn + unit) \<times> JujuHelper) option" where
  "wait_until_active self connect get_model block_until =
    (case lazy_connect self connect of
       (Inl e, self') \<Rightarrow> Some (Inl e, self')
     | (Inr u, self') \<Rightarrow>
         (case get_model of
            Inl e \<Rightarrow> Some (Inl e, self')
          | Inr v \<Rightarrow>
              (case block_until of
                 None \<Rightarrow> None
               | Some r \<Rightarrow> Some (r, self'))))"

section \<open>The steps of \<open>sunbeam/commands/juju.py\<close> and \<open>sunbeam/commands/bootstrap.py\<close>\<close>

text \<open>
  The operating system as \<open>JujuStepHelper\<close> and the steps see it: the path of the juju
  binary, what running a command line with \<open>subprocess.run(..., check=True)\<close> and decoding
  its output with \<open>json.loads\<close> gives (\<open>run_json\<close>), what running a command line gives when
  the output is not read (\<open>run_cmd\<close>), and the snap's setting \<open>snap.channel.juju\<close>.
\<close>

record os_env =
  juju_binary :: string
  run_json :: "string list \<Rightarrow> exn + json"
  run_cmd :: "string list \<Rightarrow> exn + unit"
  juju_channel :: "exn + string"

text \<open>\<open>JujuStepHelper._juju_cmd\<close>.\<close>

definition juju_cmd :: "os_env \<Rightarrow> string list \<Rightarrow> exn + json" where
  "juju_cmd env args =
    (let cmd = [juju_binary env] @ args @ [''--format'', ''json'']
     in run_json env cmd)"

text \<open>
  The loop that collects the names of the clouds whose \<open>details["type"]\<close> is "k8s", and
  the loop that collects the controllers whose \<open>details["cloud"]\<close> is one of them.
\<close>

fun k8s_cloud_names :: "(string \<times> json) list \<Rightarrow> exn + string list" where
  "k8s_cloud_names [] = Inr []"
| "k8s_cloud_names ((cloud_name, details) # rest) =
    (case py_subscript details ''type'' of
       Inl e \<Rightarrow> Inl e
     | Inr t \<Rightarrow>
         (case k8s_cloud_names rest of
            Inl e \<Rightarrow> Inl e
          | Inr names \<Rightarrow> Inr (if t = JStr ''k8s'' then cloud_name # names else names)))"

fun controllers_on :: "string list \<Rightarrow> (string \<times> json) list \<Rightarrow> exn + string list" where
  "controllers_on k8s_clouds [] = Inr []"
| "controllers_on k8s_clouds ((controller_name, details) # rest) =
    (case py_subscript details ''cloud'' of
       Inl e \<Rightarrow> Inl e
     | Inr c \<Rightarrow>
         (case controllers_on k8s_clouds rest of
            Inl e \<Rightarrow> Inl e
          | Inr names \<Rightarrow>
              Inr (if c \<in> JStr ` set k8s_clouds then controller_name # names else names)))"

text \<open>
  \<open>BootstrapJujuStep.is_skip\<close>: the body of the \<open>try\<close>, and the method, which answers
  \<open>False\<close> to a \<open>CalledProcessError\<close>. The assignment to \<open>self.controller_name\<close> is left out:
  nothing reads the field.
\<close>

definition BootstrapJujuStep_is_skip_body :: "os_env \<Rightarrow> exn + bool" where
  "BootstrapJujuStep_is_skip_body env =
    (case juju_cmd env [''clouds''] of
       Inl e \<Rightarrow> Inl e
     | Inr clouds \<Rightarrow>
    (case py_keys clouds of
       Inl e \<Rightarrow> Inl e
     | Inr ks \<Rightarrow>
    (case py_items clouds of
       Inl e \<Rightarrow> Inl e
     | Inr cloud_items \<Rightarrow>
    (case k8s_cloud_names cloud_items of
       Inl e \<Rightarrow> Inl e
     | Inr k8s_clouds \<Rightarrow>
    (case juju_cmd env [''controllers''] of
       Inl e \<Rightarrow> Inl e
     | Inr controllers0 \<Rightarrow>
    (case py_keys controllers0 of
       Inl e \<Rightarrow> Inl e
     | Inr ks' \<Rightarrow>
    (case py_get_dict controllers0 ''controllers'' of
       Inl e \<Rightarrow> Inl e
     | Inr controllers \<Rightarrow>
         if \<not> py_truthy controllers then Inr False
         else
    (case py_items controllers of
       Inl e \<Rightarrow> Inl e
     | Inr controller_items \<Rightarrow>
    (case controllers_on k8s_clouds controller_items of
       Inl e \<Rightarrow> Inl e
     | Inr existing_controllers \<Rightarrow>
         if existing_controllers = [] then Inr False else Inr True)))))))))"

definition BootstrapJujuStep_is_skip :: "os_env \<Rightarrow> exn + bool" where
  "BootstrapJujuStep_is_skip env =
    (case BootstrapJujuStep_is_skip_body env of
       Inl (CalledProcessError m) \<Rightarrow> Inr False
     | r \<Rightarrow> r)"

text \<open>\<open>BootstrapJujuStep.run\<close>, in the same two layers; \<open>cloud\<close> is \<open>self.cloud\<close>.\<close>

definition BootstrapJujuStep_run_body :: "string \<Rightarrow> os_env \<Rightarrow> exn + Result" where
  "BootstrapJujuStep_run_body cloud env =
    (case juju_cmd env [''clouds''] of
       Inl e \<Rightarrow> Inl e
     | Inr clouds \<Rightarrow>
    (case py_items clouds of
       Inl e \<Rightarrow> Inl e
     | Inr cloud_items \<Rightarrow>
    (case k8s_cloud_names cloud_items of
       Inl e \<Rightarrow> Inl e
     | Inr k8s_clouds \<Rightarrow>
         if k8s_clouds = []
         then Inr (mk_Result FAILED (Str ''Could not find any k8s clouds to bootstrap''))
         else if cloud \<notin> set k8s_clouds
         then Inr (mk_Result FAILED (Str (''Could not find '' @ cloud @ '' cloud to bootstrap'')))
         else
    (case juju_channel env of
       Inl e \<Rightarrow> Inl e
     | Inr channel \<Rightarrow>
         (let cmd = [juju_binary env, ''bootstrap'', cloud]
                    @ (if prefix ''2.9'' channel then [''--agent-version'', ''2.9.34''] else [])
          in case run_cmd env cmd of
               Inl e \<Rightarrow> Inl e
             | Inr u \<Rightarrow> Inr (mk_Result COMPLETED NoMessage))))))"

definition BootstrapJujuStep_run :: "string \<Rightarrow> os_env \<Rightarrow> exn + Result" where
  "BootstrapJujuStep_run cloud env =
    (case BootstrapJujuStep_run_body cloud env of
       Inl (CalledProcessError m) \<Rightarrow>
         Inr (mk_Result FAILED (Str (str_exn (CalledProcessError m))))
     | r \<Rightarrow> r)"

text \<open>
  The steps below call the helper through \<open>asyncio.get_event_loop().run_until_complete\<close>.
  \<open>loop\<close> is the exception that this machinery raises before the coroutine starts, if
  there is one. Each method returns the helper as the call left it; a method that does
  not return is \<open>None\<close>.
\<close>

definition CreateModelStep_run ::
  "JujuHelper \<Rightarrow> string \<Rightarrow> exn option \<Rightarrow> exn + unit \<Rightarrow> exn + unit
    \<Rightarrow> (exn + Result) \<times> JujuHelper" where
  "CreateModelStep_run jhelper model loop connect controller_add_model =
    (case loop of
       Some e \<Rightarrow> (Inl e, jhelper)
     | None \<Rightarrow>
         (case add_model jhelper connect controller_add_model of
            (result, jhelper') \<Rightarrow>
              if result then (Inr (mk_Result COMPLETED NoMessage), jhelper')
              else (Inr (mk_Result FAILED (Str (''Error in creation of model '' @ model))),
                    jhelper')))"

definition DeployBundleStep_run ::
  "JujuHelper \<Rightarrow> string \<Rightarrow> exn option \<Rightarrow> exn + unit \<Rightarrow> exn + unit \<Rightarrow> exn + unit
    \<Rightarrow> (exn + unit) option \<Rightarrow> ((exn + Result) \<times> JujuHelper) option" where
  "DeployBundleStep_run jhelper bundle_name loop connect get_model deploy block_until =
    (case loop of
       Some e \<Rightarrow> Some (Inl e, jhelper)
     | None \<Rightarrow>
         (case deploy_bundle jhelper connect get_model deploy block_until of
            None \<Rightarrow> None
          | Some (result, jhelper') \<Rightarrow>
              if result then Some (Inr (mk_Result COMPLETED NoMessage), jhelper')
              else Some (Inr (mk_Result FAILED (Str (''Error deploying bundle '' @ bundle_name))),
                         jhelper')))"

definition DestroyModelStep_run ::
  "JujuHelper \<Rightarrow> string \<Rightarrow> exn option \<Rightarrow> exn + unit \<Rightarrow> exn + unit
    \<Rightarrow> (nat \<Rightarrow> exn + string list) \<Rightarrow> (exn + Result) \<times> JujuHelper" where
  "DestroyModelStep_run jhelper model loop connect destroy_models list_models =
    (case loop of
       Some e \<Rightarrow> (Inl e, jhelper)
     | None \<Rightarrow>
         (case destroy_model jhelper connect destroy_models list_models model True of
            ((result, evs), jhelper') \<Rightarrow>
              if result then (Inr (mk_Result COMPLETED NoMessage), jhelper')
              else (Inr (mk_Result FAILED (Str ''Error destroying model'')), jhelper')))"

text \<open>\<open>self.timeout = timeout or 0\<close> of the constructors of the two status steps.\<close>

definition timeout_or_0 :: "int option \<Rightarrow> int" where
  "timeout_or_0 timeout = (case timeout of None \<Rightarrow> 0 | Some t \<Rightarrow> t)"

definition ModelStatusStep_run ::
  "JujuHelper \<Rightarrow> int option \<Rightarrow> exn option \<Rightarrow> exn + unit \<Rightarrow> exn + Model \<Rightarrow> (nat \<Rightarrow> int)
    \<Rightarrow> ((exn + Result) \<times> JujuHelper) option" where
  "ModelStatusStep_run jhelper timeout loop connect get_model elapsed =
    (case loop of
       Some e \<Rightarrow> Some (Inr (mk_Result FAILED (Str (str_exn e))), jhelper)
     | None \<Rightarrow>
         (case get_model_status jhelper connect get_model elapsed (timeout_or_0 timeout) of
            None \<Rightarrow> None
          | Some (report, jhelper') \<Rightarrow>
              (let status_message =
                     map (\<lambda>(app, status). ''App '' @ app @ '' is in '' @ status @ '' state'')
                         (apps_status report)
               in Some (Inr (mk_Result COMPLETED (StrList status_message)), jhelper'))))"

text \<open>
  \<open>WriteModelStatusStep.run\<close>: \<open>json_loads\<close> is what \<open>json.loads(_status.to_json())\<close> does and
  \<open>write_file\<close> what opening the file and dumping the status into it does.
\<close>

definition WriteModelStatusStep_run ::
  "JujuHelper \<Rightarrow> exn option \<Rightarrow> exn + unit \<Rightarrow> exn + unit \<Rightarrow> exn + string
    \<Rightarrow> (string \<Rightarrow> exn + json) \<Rightarrow> (json \<Rightarrow> exn + unit) \<Rightarrow> (exn + Result) \<times> JujuHelper" where
  "WriteModelStatusStep_run jhelper loop connect get_model get_status json_loads write_file =
    (case loop of
       Some e \<Rightarrow> (Inr (mk_Result FAILED (Str (str_exn e))), jhelper)
     | None \<Rightarrow>
         (case get_model_status_full jhelper connect get_model get_status of
            (Inl e, jhelper') \<Rightarrow> (Inr (mk_Result FAILED (Str (str_exn e))), jhelper')
          | (Inr status_json, jhelper') \<Rightarrow>
              (case json_loads status_json of
                 Inl e \<Rightarrow> (Inr (mk_Result FAILED (Str (str_exn e))), jhelper')
               | Inr status \<Rightarrow>
                   (case write_file status of
                      Inl e \<Rightarrow> (Inr (mk_Result FAILED (Str (str_exn e))), jhelper')
                    | Inr u \<Rightarrow>
                        (Inr (mk_Result COMPLETED (Str ''Inspecting Model Status'')),
                         jhelper')))))"

text \<open>
  \<open>WriteCharmLog.run\<close>: \<open>open_file\<close> is what opening the log file does and \<open>check_call\<close> what
  \<open>subprocess.check_call\<close> does; only \<open>CalledProcessError\<close> is caught.
\<close>

definition WriteCharmLog_run :: "exn + unit \<Rightarrow> exn + unit \<Rightarrow> exn + Result" where
  "WriteCharmLog_run open_file check_call =
    (case open_file of
       Inl (CalledProcessError m) \<Rightarrow>
         Inr (mk_Result FAILED (Str (str_exn (CalledProcessError m))))
     | Inl e \<Rightarrow> Inl e
     | Inr f \<Rightarrow>
         (case check_call of
            Inl (CalledProcessError m) \<Rightarrow>
              Inr (mk_Result FAILED (Str (str_exn (CalledProcessError m))))
          | Inl e \<Rightarrow> Inl e
          | Inr u \<Rightarrow> Inr (mk_Result COMPLETED (Str ''Inspecting Charm Log''))))"

text \<open>
  \<open>DeployControlPlaneStep.run\<close> of \<open>bootstrap.py\<close>: \<open>write_tfvars\<close> is called before the
  \<open>try\<close>; inside it \<open>apply\<close> and \<open>wait_until_active\<close>, of which only a
  \<open>TerraformException\<close> is caught.
\<close>

definition DeployControlPlaneStep_run ::
  "JujuHelper \<Rightarrow> exn + unit \<Rightarrow> exn + unit \<Rightarrow> exn option \<Rightarrow> exn + unit \<Rightarrow> exn + unit
    \<Rightarrow> (exn + unit) option \<Rightarrow> ((exn + Result) \<times> JujuHelper) option" where
  "DeployControlPlaneStep_run jhelper write_tfvars apply loop connect get_model block_until =
    (case write_tfvars of
       Inl e \<Rightarrow> Some (Inl e, jhelper)
     | Inr u \<Rightarrow>
         (case apply of
            Inl (TerraformException m) \<Rightarrow>
              Some (Inr (mk_Result FAILED (Str (str_exn (TerraformException m)))), jhelper)
          | Inl e \<Rightarrow> Some (Inl e, jhelper)
          | Inr v \<Rightarrow>
              (case loop of
                 Some (TerraformException m) \<Rightarrow>
                   Some (Inr (mk_Result FAILED (Str (str_exn (TerraformException m)))), jhelper)
               | Some e \<Rightarrow> Some (Inl e, jhelper)
               | None \<Rightarrow>
                   (case wait_until_active jhelper connect get_model block_until of
                      None \<Rightarrow> None
                    | Some (Inl (TerraformException m), jhelper') \<Rightarrow>
                        Some (Inr (mk_Result FAILED (Str (str_exn (TerraformException m)))),
                              jhelper')
                    | Some (Inl e, jhelper') \<Rightarrow> Some (Inl e, jhelper')
                    | Some (Inr x, jhelper') \<Rightarrow>
                        Some (Inr (mk_Result COMPLETED NoMessage), jhelper')))))"

section \<open>The plan runner: \<open>bootstrap\<close> of \<open>sunbeam/commands/bootstrap.py\<close>\<close>

text \<open>
  What a call of a method of a step does: it returns a value, raises, or never returns
  (\<open>wait_until_active\<close> waits without bound).
\<close>

datatype 'a outcome = Return 'a | Raise exn | Hang

text \<open>
  Modelled from the spec: \<open>BaseStep\<close> of \<open>sunbeam/jobs/common.py\<close>, which is not among the
  sources. Section 4.1 of the specification: a Step has a name, a description, a skip
  test and a run action that returns a Result. The two methods act on the world \<open>'w\<close>
  that the steps of a plan share (the remote systems and the helper objects).
\<close>

record 'w step =
  name :: string
  description :: string
  is_skip :: "'w \<Rightarrow> bool outcome \<times> 'w"
  run :: "'w \<Rightarrow> Result outcome \<times> 'w"

text \<open>
  What the runner does that can be observed, in order: a line of the debug log, the
  status line of the console, a line printed on the console, a line echoed, and the
  calls it makes with what they return. A call and its return carry the position of the
  step in the plan.
\<close>

datatype event =
    Debug string
  | Status string
  | Print string
  | Echo string
  | IsSkipCall nat
  | IsSkipReturn nat bool
  | RunCall nat
  | RunReturn nat Result
  | DisconnectCall

text \<open>How the command ends.\<close>

datatype exit =
    Finished
  | ClickException payload
  | UsageError string
  | Uncaught exn
  | Hung

text \<open>\<open>f"{result.result_type}"\<close> for a member of the enum.\<close>

fun str_ResultType :: "ResultType \<Rightarrow> string" where
  "str_ResultType COMPLETED = ''ResultType.COMPLETED''"
| "str_ResultType FAILED = ''ResultType.FAILED''"
| "str_ResultType SKIPPED = ''ResultType.SKIPPED''"

text \<open>
  The loop \<open>for step in plan\<close>, lines 167 to 186, from the step at position \<open>i\<close> on. An
  exception that a method raises is not caught in the loop and ends the command.
\<close>

fun run_plan :: "nat \<Rightarrow> 'w step list \<Rightarrow> 'w \<Rightarrow> exit \<times> event list \<times> 'w" where
  "run_plan i [] w = (Finished, [], w)"
| "run_plan i (step # rest) w =
    (let message = description step @ '' ... '';
         entered = [Debug (''Starting step '' @ name step), Status message, IsSkipCall i]
     in case is_skip step w of
          (Hang, w1) \<Rightarrow> (Hung, entered, w1)
        | (Raise e, w1) \<Rightarrow> (Uncaught e, entered, w1)
        | (Return True, w1) \<Rightarrow>
            (case run_plan (Suc i) rest w1 of
               (x, evs, w') \<Rightarrow>
                 (x, entered @ [IsSkipReturn i True,
                                Debug (''Skipping step '' @ name step),
                                Print (message @ ''[green]done[/green]'')] @ evs, w'))
        | (Return False, w1) \<Rightarrow>
            (let running = entered @ [IsSkipReturn i False,
                                      Debug (''Running step '' @ name step), RunCall i]
             in case run step w1 of
                  (Hang, w2) \<Rightarrow> (Hung, running, w2)
                | (Raise e, w2) \<Rightarrow> (Uncaught e, running, w2)
                | (Return result, w2) \<Rightarrow>
                    (let ran = running @ [RunReturn i result,
                                 Debug (''Finished running step '' @ name step @ ''. ''
                                          @ ''Result: '' @ str_ResultType (result_type result))]
                     in if result_type result = FAILED
                        then (ClickException (Result.message result),
                              ran @ [Print (message @ ''[red]failed[/red]'')], w2)
                        else (case run_plan (Suc i) rest w2 of
                                (x, evs, w') \<Rightarrow>
                                  (x, ran @ [Print (message @ ''[green]done[/green]'')] @ evs,
                                   w')))))"

text \<open>The position of the step that a call or a return belongs to.\<close>

fun step_index :: "event \<Rightarrow> nat option" where
  "step_index (IsSkipCall i) = Some i"
| "step_index (IsSkipReturn i b) = Some i"
| "step_index (RunCall i) = Some i"
| "step_index (RunReturn i r) = Some i"
| "step_index ev = None"

text \<open>
  Modelled from the spec: the preflight checks of \<open>sunbeam/jobs/checks.py\<close>, which is not
  among the sources. The command reads of a check its name, its description, the truth
  value that \<open>run()\<close> returns and its message.
\<close>

record check =
  check_name :: string
  check_description :: string
  check_run :: bool
  check_message :: string

text \<open>The loop \<open>for check in preflight_checks\<close>, lines 134 to 144.\<close>

fun run_checks :: "check list \<Rightarrow> exit \<times> event list" where
  "run_checks [] = (Finished, [])"
| "run_checks (c # cs) =
    (let message = check_description c @ '' ... '';
         entered = [Debug (''Starting pre-flight check '' @ check_name c), Status message]
     in if check_run c
        then (case run_checks cs of
                (x, evs) \<Rightarrow> (x, entered @ [Print (message @ ''[green]done[/green]'')] @ evs))
        else (ClickException (Str (check_message c)),
              entered @ [Print (message @ ''[red]failed[/red]''), Print []]))"

text \<open>
  The world of the steps of \<open>bootstrap\<close>: the helper that the command creates in line 146
  and hands to the steps, and the remote systems.
\<close>

record 'r world =
  jhelper :: JujuHelper
  remote :: 'r

text \<open>
  The command \<open>bootstrap\<close>. The statements that copy the deploy directory and read the
  configuration are taken to return; the checks and the plan that lines 121 to 165
  assemble from the role are parameters (\<open>TerraformInitStep\<close> and the steps of \<open>ohv\<close> are not
  among the sources), as is what \<open>controller.disconnect()\<close> does. The helper is created
  anew, the plan is run, and line 189 calls \<open>disconnect_controller\<close>; nothing is caught.
\<close>

definition bootstrap ::
  "bool \<Rightarrow> string \<Rightarrow> check list \<Rightarrow> 'r world step list \<Rightarrow> exn + unit \<Rightarrow> 'r
    \<Rightarrow> exit \<times> event list \<times> 'r world" where
  "bootstrap has_superuser_privileges role preflight_checks plan disconnect r =
    (let w = \<lparr>jhelper = JujuHelper_init, remote = r\<rparr>
     in if has_superuser_privileges
        then (UsageError
                (''The bootstrap command should not be run with root ''
                   @ ''privileges. Try again without sudo.''), [], w)
        else (case run_checks preflight_checks of
                (Finished, evs1) \<Rightarrow>
                  (case run_plan 0 plan w of
                     (Finished, evs2, w') \<Rightarrow>
                       (let evs = evs1 @ evs2
                              @ [Echo (''Node has been bootstrapped as a '' @ role @ '' node''),
                                 DisconnectCall]
                        in case disconnect_controller (jhelper w') disconnect of
                             Inl e \<Rightarrow> (Uncaught e, evs, w')
                           | Inr u \<Rightarrow> (Finished, evs, w'))
                   | (x, evs2, w') \<Rightarrow> (x, evs1 @ evs2, w'))
              | (x, evs1) \<Rightarrow> (x, evs1, w)))"

subsection \<open>The cluster steps as steps of a plan\<close>

text \<open>
  A method that touches nothing of the world but the cluster daemon, as a method of a
  step; and the three cluster steps with the name and description that their
  constructors pass to \<open>BaseStep\<close>.
\<close>

definition lift_call :: "exn + 'a \<Rightarrow> 'w \<Rightarrow> 'a outcome \<times> 'w" where
  "lift_call r w = (case r of Inl e \<Rightarrow> (Raise e, w) | Inr v \<Rightarrow> (Return v, w))"

definition ClusterInitStep_step :: "ClusterInitStep \<Rightarrow> 'w step" where
  "ClusterInitStep_step self =
     \<lparr>name = ''Bootstrap Cluster'',
      description = ''Bootstrapping microstack cluster'',
      is_skip = lift_call (ClusterInitStep_is_skip self),
      run = lift_call (ClusterInitStep_run self)\<rparr>"

definition ClusterAddNodeStep_step :: "ClusterAddNodeStep \<Rightarrow> 'w step" where
  "ClusterAddNodeStep_step self =
     \<lparr>name = ''Add Node Cluster'',
      description = ''Generate token for new node to add to cluster'',
      is_skip = lift_call (ClusterAddNodeStep_is_skip self),
      run = lift_call (ClusterAddNodeStep_run self)\<rparr>"

definition ClusterJoinNodeStep_step :: "ClusterJoinNodeStep \<Rightarrow> 'w step" where
  "ClusterJoinNodeStep_step self =
     \<lparr>name = ''Join node to Cluster'',
      description = ''Join node to microstack cluster'',
      is_skip = lift_call (ClusterJoinNodeStep_is_skip self),
      run = lift_call (ClusterJoinNodeStep_run self)\<rparr>"

text \<open>
  Three plans. In the first the token of node-b was issued before, so the first step
  fails. In the second node-b joins a daemon that accepts the join. In the third node-a
  is a member already, so the first step is skipped, and the second step mints the token
  of node-b.
\<close>

definition failing_plan :: "unit step list" where
  "failing_plan =
     [ClusterAddNodeStep_step
        \<lparr>add_node_name = ''node-b'', add_role = ''compute'', add_client = token_issued_client\<rparr>,
      ClusterInitStep_step
        \<lparr>init_port = 7000, init_client = healthy_client, init_fqdn = ''node-c'',
         init_ip = ''10.0.0.7''\<rparr>]"

definition joining_plan :: "unit step list" where
  "joining_plan =
     [ClusterJoinNodeStep_step
        \<lparr>join_port = 7000, join_client = healthy_client, join_token = ''T'',
         join_fqdn = ''node-b'', join_ip = ''10.0.0.6''\<rparr>]"

definition skipping_plan :: "unit step list" where
  "skipping_plan =
     [ClusterInitStep_step
        \<lparr>init_port = 7000, init_client = healthy_client, init_fqdn = ''node-a'',
         init_ip = ''10.0.0.5''\<rparr>,
      ClusterAddNodeStep_step
        \<lparr>add_node_name = ''node-b'', add_role = ''compute'', add_client = healthy_client\<rparr>]"

text \<open>\<open>BootstrapJujuStep\<close> as a step of a plan.\<close>

definition BootstrapJujuStep_step :: "string \<Rightarrow> os_env \<Rightarrow> 'w step" where
  "BootstrapJujuStep_step cloud env =
     \<lparr>name = ''Bootstrap Juju'',
      description = ''Bootstrapping Juju into microk8s'',
      is_skip = lift_call (BootstrapJujuStep_is_skip env),
      run = lift_call (BootstrapJujuStep_run cloud env)\<rparr>"

text \<open>
  A node on which juju knows the cloud microk8s and has a controller on it, so that
  \<open>BootstrapJujuStep\<close> is skipped; and a plan made of that step alone.
\<close>

definition bootstrapped_env :: os_env where
  "bootstrapped_env =
     \<lparr>juju_binary = ''/snap/bin/juju'',
      run_json = (\<lambda>cmd.
        if cmd = [''/snap/bin/juju'', ''clouds'', ''--format'', ''json'']
        then Inr (JObj [(''microk8s'', JObj [(''type'', JStr ''k8s'')])])
        else if cmd = [''/snap/bin/juju'', ''controllers'', ''--format'', ''json'']
        then Inr (JObj [(''controllers'',
                    JObj [(''microk8s-localhost'', JObj [(''cloud'', JStr ''microk8s'')])])])
        else Inl (CalledProcessError ''Command returned non-zero exit status 1.'')),
      run_cmd = (\<lambda>cmd. Inr ()),
      juju_channel = Inr ''3.1/stable''\<rparr>"

definition skipped_bootstrap_plan :: "unit world step list" where
  "skipped_bootstrap_plan = [BootstrapJujuStep_step ''microk8s'' bootstrapped_env]"

section \<open>The message of a FAILED Result\<close>

text \<open>
  A Result carries a message that is a str and not empty; a call, if it raises, raises
  a fault whose description \<open>str(e)\<close> is not empty.
\<close>

definition nonempty_message :: "Result \<Rightarrow> bool" where
  "nonempty_message r = (case message r of Str s \<Rightarrow> s \<noteq> [] | NoMessage \<Rightarrow> False | StrList l \<Rightarrow> False)"

definition described :: "exn + 'a \<Rightarrow> bool" where
  "described call = (case call of Inl e \<Rightarrow> str_exn e \<noteq> [] | Inr v \<Rightarrow> True)"

definition described_opt :: "exn option \<Rightarrow> bool" where
  "described_opt raised = (case raised of Some e \<Rightarrow> str_exn e \<noteq> [] | None \<Rightarrow> True)"

text \<open>A cluster daemon whose calls raise an exception that was created without a text.\<close>

definition silent_client :: clusterClient where
  "silent_client =
     \<lparr>get_cluster_members = Inr [],
      bootstrap_cluster = (\<lambda>n a. Inl (OtherException [])),
      add_node = (\<lambda>n r. Inl (OtherException [])),
      join_node = (\<lambda>n a t. Inl (OtherException []))\<rparr>"

section \<open>Further example inputs\<close>

text \<open>A response with status 500 whose body is the empty object: it has no \<open>error\<close> field.\<close>

definition empty_error_response :: Response where
  "empty_error_response =
     \<lparr>raise_for_status = Some (HTTPError ''500 Server Error''),
      response_text = ''{}'',
      loads = Inr (JObj [])\<rparr>"

text \<open>
  An event that records the tag SKIPPED: the return of a Result with that tag, or a line
  of the log or of the console in which the word occurs.
\<close>

fun records_SKIPPED :: "event \<Rightarrow> bool" where
  "records_SKIPPED (RunReturn i r) = (result_type r = SKIPPED)"
| "records_SKIPPED (Debug s) = str_in ''SKIPPED'' s"
| "records_SKIPPED (Status s) = str_in ''SKIPPED'' s"
| "records_SKIPPED (Print s) = str_in ''SKIPPED'' s"
| "records_SKIPPED (Echo s) = str_in ''SKIPPED'' s"
| "records_SKIPPED (IsSkipCall i) = False"
| "records_SKIPPED (IsSkipReturn i b) = False"
| "records_SKIPPED (RunCall i) = False"
| "records_SKIPPED DisconnectCall = False"

text \<open>
  A node on which juju knows no cloud and no controller, so that \<open>BootstrapJujuStep\<close> is
  not skipped and fails; and a plan made of that step alone.
\<close>

definition no_cloud_env :: os_env where
  "no_cloud_env =
     \<lparr>juju_binary = ''/snap/bin/juju'',
      run_json = (\<lambda>cmd. Inr (JObj [])),
      run_cmd = (\<lambda>cmd. Inr ()),
      juju_channel = Inr ''3.1/stable''\<rparr>"

definition no_cloud_plan :: "unit world step list" where
  "no_cloud_plan = [BootstrapJujuStep_step ''microk8s'' no_cloud_env]"

section \<open>Error translation of the remote service client\<close>

lemma str_in_sublist: "str_in needle haystack = sublist needle haystack"
  by (induction haystack) (auto simp: sublist_Cons_right)

text \<open>
  Claim C2, as amended. When \<open>raise_for_status\<close> raises the transport error \<open>e\<close> (the
  status is 4xx or 5xx) and the body decodes to an object whose \<open>error\<close> field is the
  string \<open>error\<close>, \<open>_request\<close> raises the fault of the first rule of the table whose
  pattern occurs in \<open>error\<close>, in the order NodeAlreadyExists, NodeJoinFailed,
  TokenAlreadyIssued, ClusterServiceUnavailable, and raises \<open>e\<close> itself when no pattern
  occurs.
\<close>

theorem request_error_translation:
  assumes "session method (request_url netloc path) = response"
    and "raise_for_status response = Some e"
    and "loads response = Inr body"
    and "py_get body ''error'' = Inr (JStr error)"
  shows "request session netloc method path = Inl (classify_spec e error)"
  using assms
  by (simp add: request_def classify_spec_def error_table_def Let_def)

theorem request_error_translation_witness:
  "request (\<lambda>method url. two_pattern_response) ''sock'' ''get'' ''/cluster/1.0/cluster''
     = Inl (NodeAlreadyExistsException ''Already node exists in the microstack cluster'')"
  using request_error_translation
    [of "\<lambda>method url. two_pattern_response" "''get''" "''sock''" "''/cluster/1.0/cluster''"
        two_pattern_response "HTTPError ''500 Server Error''"
        "JObj [(''error'', JStr ''Daemon not yet initialized: remote with name n1'')]"
        "''Daemon not yet initialized: remote with name n1''"]
  by (simp add: two_pattern_response_def classify_spec_def error_table_def)

text \<open>
  The claim as it was stated fails: on a response with status 500 whose body is an
  object without an \<open>error\<close> field no rule matches, and \<open>_request\<close> raises a \<open>TypeError\<close>,
  not the transport error.
\<close>

theorem request_missing_error_field_counterexample:
  "request (\<lambda>method url. empty_error_response) ''sock'' ''get'' ''/cluster/1.0/cluster''
     = Inl (TypeError ''argument of type 'NoneType' is not iterable'')
 \<and> raise_for_status empty_error_response = Some (HTTPError ''500 Server Error'')"
  by (simp add: request_def empty_error_response_def Let_def)

section \<open>Polling the model status\<close>

lemma poll_apps_snd:
  "snd (poll_apps apps f acc) = snd acc \<union> {a \<in> set apps. f a = Some ''active''}"
  unfolding poll_apps_def
  by (induction apps arbitrary: acc) (auto split: option.splits prod.splits)

lemma polled_snd:
  "snd (polled model n) =
     {a \<in> set (app_keys model). \<exists>i < n. app_status model i a = Some ''active''}"
  by (induction n) (auto simp: poll_apps_snd less_Suc_eq)

lemma card_eq_iff_seen:
  "length (remdups (app_keys model)) = card (snd (polled model (Suc n)))
     \<longleftrightarrow> all_seen_active model n"
proof -
  let ?A = "snd (polled model (Suc n))"
  have sub: "?A \<subseteq> set (app_keys model)"
    by (auto simp: polled_snd simp del: polled.simps)
  have len: "length (remdups (app_keys model)) = card (set (app_keys model))"
    by (simp add: length_remdups_card_conv)
  have "card (set (app_keys model)) = card ?A \<longleftrightarrow> ?A = set (app_keys model)"
    using sub by (metis List.finite_set card_subset_eq)
  also have "\<dots> \<longleftrightarrow> all_seen_active model n"
    unfolding all_seen_active_def polled_snd by (auto simp: less_Suc_eq_le)
  finally show ?thesis using len by simp
qed

lemma status_loop_stops:
  assumes "stops_at model elapsed timeout k"
    and "\<forall>i. n \<le> i \<and> i < k \<longrightarrow> \<not> stops_at model elapsed timeout i"
    and "n \<le> k"
  shows "status_loop (remdups (app_keys model)) (app_status model) elapsed timeout n
           (polled model n)
       = Some \<lparr>apps_status = fst (polled model (Suc k)), polls = Suc k,
               timeout_logged = (\<not> all_seen_active model k \<and> timeout \<noteq> 0)\<rparr>"
  using assms
proof (induction "k - n" arbitrary: n)
  case 0
  then have [simp]: "n = k" by simp
  from 0 show ?case
    apply (subst status_loop.simps)
    using card_eq_iff_seen[of model k]
    by (auto simp: stops_at_def Let_def)
next
  case (Suc d)
  then have nk: "n < k" by simp
  with Suc.prems have ns: "\<not> stops_at model elapsed timeout n" by simp
  have IH: "status_loop (remdups (app_keys model)) (app_status model) elapsed timeout (Suc n)
              (polled model (Suc n))
       = Some \<lparr>apps_status = fst (polled model (Suc k)), polls = Suc k,
               timeout_logged = (\<not> all_seen_active model k \<and> timeout \<noteq> 0)\<rparr>"
    using Suc.hyps(1)[of "Suc n"] Suc.hyps(2) Suc.prems nk by auto
  show ?case
    apply (subst status_loop.simps)
    using ns card_eq_iff_seen[of model n] IH
    by (auto simp: stops_at_def Let_def)
qed

text \<open>
  Claim C4, as amended. \<open>get_model_status\<close> polls after each sleep of one time unit and
  returns at the first poll at which every known application has been seen active or
  \<open>int(time.time() - start) > timeout\<close>; the dict it returns is the one collected up to that
  poll, and the TIMEOUT line is logged only when it stops on the deadline with a timeout
  other than 0. With \<open>timeout = 0\<close> the deadline test holds as soon as one whole time unit
  has passed, so the method returns after its first poll and logs nothing, whether or not
  every application is active.
\<close>

theorem get_model_status_stops:
  assumes "connect = Inr () \<or> controller self \<noteq> None"
    and "get_model = Inr model"
    and "stops_at model elapsed timeout k"
    and "\<forall>i < k. \<not> stops_at model elapsed timeout i"
  shows "\<exists>report self'.
           get_model_status self connect get_model elapsed timeout = Some (report, self')
         \<and> polls report = Suc k
         \<and> apps_status report = fst (polled model (Suc k))
         \<and> timeout_logged report = (\<not> all_seen_active model k \<and> timeout \<noteq> 0)
         \<and> (timeout = 0 \<and> 1 \<le> elapsed 0 \<longrightarrow> polls report = 1 \<and> \<not> timeout_logged report)"
proof -
  have loop: "status_loop (remdups (app_keys model)) (app_status model) elapsed timeout 0 ([], {})
       = Some \<lparr>apps_status = fst (polled model (Suc k)), polls = Suc k,
               timeout_logged = (\<not> all_seen_active model k \<and> timeout \<noteq> 0)\<rparr>"
    using status_loop_stops[of model elapsed timeout k 0] assms(3,4) by simp
  have k0: "timeout = 0 \<and> 1 \<le> elapsed 0 \<longrightarrow> k = 0"
  proof
    assume "timeout = 0 \<and> 1 \<le> elapsed 0"
    then have "stops_at model elapsed timeout 0" by (simp add: stops_at_def)
    with assms(4) show "k = 0" by (cases k) auto
  qed
  have "\<exists>self'. lazy_connect self connect = (Inr (), self')"
    using assms(1) by (cases "controller self") (auto simp: lazy_connect_def)
  then obtain self' where lc: "lazy_connect self connect = (Inr (), self')" ..
  show ?thesis
    using loop k0 lc assms(2)
    by (auto simp: get_model_status_def simp del: polled.simps)
qed

theorem get_model_status_stops_witness:
  "stops_at converging_model ticking 5 1 \<and> \<not> stops_at converging_model ticking 5 0
   \<and> (\<exists>report self'.
         get_model_status JujuHelper_init (Inr ()) (Inr converging_model) ticking 5
           = Some (report, self')
       \<and> polls report = 2
       \<and> apps_status report = [(''keystone'', ''active'')]
       \<and> \<not> timeout_logged report)"
proof -
  have a: "stops_at converging_model ticking 5 1"
    by (auto simp: stops_at_def all_seen_active_def converging_model_def intro!: exI[of _ 1])
  have b: "\<not> stops_at converging_model ticking 5 0"
    by (simp add: stops_at_def all_seen_active_def converging_model_def ticking_def)
  have c: "\<forall>i < 1. \<not> stops_at converging_model ticking 5 i" using b by simp
  have d: "all_seen_active converging_model 1"
    by (auto simp: all_seen_active_def converging_model_def intro!: exI[of _ 1])
  have e: "fst (polled converging_model (Suc 1)) = [(''keystone'', ''active'')]"
    by (simp add: converging_model_def poll_apps_def numeral_2_eq_2)
  show ?thesis
    using a b d e
      get_model_status_stops[of "Inr ()" JujuHelper_init "Inr converging_model"
        converging_model ticking 5 1, OF _ _ a c]
    by (auto simp: numeral_2_eq_2)
qed

text \<open>
  The claim as it was stated fails: with \<open>timeout = 0\<close> and an application that is
  "waiting", the method returns after one poll.
\<close>

theorem get_model_status_timeout_zero_counterexample:
  "get_model_status JujuHelper_init (Inr ()) (Inr waiting_model) ticking 0
     = Some (\<lparr>apps_status = [(''keystone'', ''waiting'')], polls = 1, timeout_logged = False\<rparr>,
             \<lparr>controller = Some Controller\<rparr>)
   \<and> \<not> all_seen_active waiting_model 0"
  apply (simp add: get_model_status_def lazy_connect_def JujuHelper_init_def)
  apply (subst status_loop.simps)
  apply (simp add: waiting_model_def ticking_def poll_apps_def all_seen_active_def)
  done

section \<open>The cluster steps\<close>

text \<open>
  Claim C5. In each of \<open>ClusterInitStep\<close>, \<open>ClusterAddNodeStep\<close> and
  \<open>ClusterJoinNodeStep\<close>, when the listing of the members raises
  \<open>ClusterServiceUnavailableException\<close>, \<open>is_skip\<close> returns \<open>False\<close> and raises nothing.
\<close>

theorem is_skip_cold_system:
  "(get_cluster_members (init_client i) = Inl (ClusterServiceUnavailableException m)
      \<longrightarrow> ClusterInitStep_is_skip i = Inr False)
 \<and> (get_cluster_members (add_client a) = Inl (ClusterServiceUnavailableException m)
      \<longrightarrow> ClusterAddNodeStep_is_skip a = Inr False)
 \<and> (get_cluster_members (join_client j) = Inl (ClusterServiceUnavailableException m)
      \<longrightarrow> ClusterJoinNodeStep_is_skip j = Inr False)"
  by (simp add: ClusterInitStep_is_skip_def ClusterAddNodeStep_is_skip_def
      ClusterJoinNodeStep_is_skip_def probe_membership_def)

theorem is_skip_cold_system_witness:
  "ClusterInitStep_is_skip
     \<lparr>init_port = 7000, init_client = cold_client, init_fqdn = ''node-a'', init_ip = ''10.0.0.5''\<rparr>
     = Inr False
 \<and> ClusterAddNodeStep_is_skip
     \<lparr>add_node_name = ''node-b'', add_role = ''compute'', add_client = cold_client\<rparr> = Inr False
 \<and> ClusterJoinNodeStep_is_skip
     \<lparr>join_port = 7000, join_client = cold_client, join_token = ''T'', join_fqdn = ''node-b'',
      join_ip = ''10.0.0.6''\<rparr> = Inr False"
  using is_skip_cold_system
    [of "\<lparr>init_port = 7000, init_client = cold_client, init_fqdn = ''node-a'', init_ip = ''10.0.0.5''\<rparr>"
        "''Microstack Cluster not initialized''"
        "\<lparr>add_node_name = ''node-b'', add_role = ''compute'', add_client = cold_client\<rparr>"
        "\<lparr>join_port = 7000, join_client = cold_client, join_token = ''T'', join_fqdn = ''node-b'',
          join_ip = ''10.0.0.6''\<rparr>"]
  by (simp add: cold_client_def)

text \<open>
  Claim C6. When \<open>add_node\<close> raises \<open>TokenAlreadyGeneratedException\<close>,
  \<open>ClusterAddNodeStep.run\<close> returns a FAILED Result whose message is the text of the
  fault; no exception leaves the method.
\<close>

theorem add_node_token_already_issued:
  assumes "add_node (add_client self) (add_node_name self) (add_role self)
             = Inl (TokenAlreadyGeneratedException m)"
  shows "ClusterAddNodeStep_run self = Inr \<lparr>result_type = FAILED, message = Str m\<rparr>"
  using assms by (simp add: ClusterAddNodeStep_run_def mk_Result_def)

theorem add_node_token_already_issued_witness:
  "ClusterAddNodeStep_run
     \<lparr>add_node_name = ''node-b'', add_role = ''compute'', add_client = token_issued_client\<rparr>
   = Inr \<lparr>result_type = FAILED, message = Str ''Token already generated for the node''\<rparr>"
  using add_node_token_already_issued
    [of "\<lparr>add_node_name = ''node-b'', add_role = ''compute'', add_client = token_issued_client\<rparr>"
        "''Token already generated for the node''"]
  by (simp add: token_issued_client_def)

text \<open>
  Claim C3 at two inputs. After a join that succeeds, \<open>ClusterJoinNodeStep.run\<close> raises
  \<open>NameError\<close> where the claim has it return a Result, and the runner does not catch it:
  the command ends with the uncaught exception. And \<open>ClusterAddNodeStep.run\<close> lets a
  transport error that no rule classified leave the method, where the claim has it
  return a FAILED Result.
\<close>

theorem join_success_raises:
  "ClusterJoinNodeStep_run
     \<lparr>join_port = 7000, join_client = healthy_client, join_token = ''T'', join_fqdn = ''node-b'',
      join_ip = ''10.0.0.6''\<rparr> = Inl (NameError ''name 'token' is not defined'')
 \<and> run_plan 0 joining_plan ()
     = (Uncaught (NameError ''name 'token' is not defined''),
        [Debug ''Starting step Join node to Cluster'',
         Status ''Join node to microstack cluster ... '',
         IsSkipCall 0, IsSkipReturn 0 False,
         Debug ''Running step Join node to Cluster'', RunCall 0], ())
 \<and> ClusterAddNodeStep_run
     \<lparr>add_node_name = ''node-b'', add_role = ''compute'', add_client = unclassified_client\<rparr>
     = Inl (HTTPError ''500 Server Error'')"
  by (simp add: ClusterJoinNodeStep_run_def ClusterAddNodeStep_run_def healthy_client_def
      unclassified_client_def joining_plan_def ClusterJoinNodeStep_step_def lift_call_def
      ClusterJoinNodeStep_is_skip_def probe_membership_def member_get_def Let_def)

section \<open>Destroying a model\<close>

lemma wait_removed_present:
  assumes "\<forall>i \<in> set is. model_name \<in> set (models_at list_models i)"
    and "controller self \<noteq> None"
  shows "wait_removed model_name connect list_models self is
           = ((False, concat (map (\<lambda>i. [GetModels, Sleep 10]) is)), self)"
  using assms
  by (induction "is")
     (auto simp: get_models_def lazy_connect_def models_at_def split: sum.splits)

lemma wait_removed_absent:
  assumes "\<forall>i \<in> set pre. model_name \<in> set (models_at list_models i)"
    and "model_name \<notin> set (models_at list_models k)"
    and "controller self \<noteq> None"
  shows "wait_removed model_name connect list_models self (pre @ k # post)
           = ((True, concat (map (\<lambda>i. [GetModels, Sleep 10]) pre) @ [GetModels]), self)"
  using assms
  by (induction pre)
     (auto simp: get_models_def lazy_connect_def models_at_def split: sum.splits)

lemma count_wait_removed:
  "wait_removed model_name connect list_models self is = ((r, evs), self')
     \<Longrightarrow> length (filter (\<lambda>e. e = GetModels) evs) \<le> length is"
proof (induction "is" arbitrary: self r evs self')
  case Nil
  then show ?case by simp
next
  case (Cons i rest)
  obtain models s1 where gm: "get_models self connect (list_models i) = (models, s1)"
    by (cases "get_models self connect (list_models i)")
  show ?case
  proof (cases "model_name \<in> set models")
    case False
    with Cons.prems gm show ?thesis by auto
  next
    case True
    obtain r2 evs2 s2 where w: "wait_removed model_name connect list_models s1 rest = ((r2, evs2), s2)"
      by (metis prod.exhaust)
    from Cons.IH[OF w] have "length (filter (\<lambda>e. e = GetModels) evs2) \<le> length rest" .
    with Cons.prems gm True w show ?thesis by auto
  qed
qed

text \<open>
  Claim C7. \<open>destroy_model(name, wait=True)\<close> returns on every input. Once the request
  for destruction has gone through, it lists the models at most 30 times with a sleep of
  10 after each listing that still shows the model; it returns \<open>True\<close> at the first listing
  without the model, and \<open>False\<close> after 30 listings that all show it.
\<close>

theorem destroy_model_wait_terminates:
  assumes "connect = Inr () \<or> controller self \<noteq> None"
    and "destroy_models = Inr ()"
  shows "\<exists>r evs self'.
           destroy_model self connect destroy_models list_models model_name True
             = ((r, evs), self')
         \<and> length (filter (\<lambda>e. e = GetModels) evs) \<le> 30
         \<and> (\<forall>k < 30. model_name \<notin> set (models_at list_models k)
                \<and> (\<forall>i < k. model_name \<in> set (models_at list_models i))
              \<longrightarrow> r \<and> evs = concat (replicate k [GetModels, Sleep 10]) @ [GetModels])
         \<and> ((\<forall>i < 30. model_name \<in> set (models_at list_models i))
              \<longrightarrow> \<not> r \<and> evs = concat (replicate 30 [GetModels, Sleep 10]))"
proof -
  have "\<exists>s1. lazy_connect self connect = (Inr (), s1) \<and> controller s1 \<noteq> None"
    using assms(1) by (cases "controller self") (auto simp: lazy_connect_def)
  then obtain s1 where lc: "lazy_connect self connect = (Inr (), s1)"
    and c1: "controller s1 \<noteq> None" by blast
  let ?w = "wait_removed model_name connect list_models s1 [0..<30]"
  obtain r evs s2 where w: "?w = ((r, evs), s2)" by (metis prod.exhaust)
  have dm: "destroy_model self connect destroy_models list_models model_name True = ((r, evs), s2)"
    using lc assms(2) w by (simp add: destroy_model_def)
  have cnt: "length (filter (\<lambda>e. e = GetModels) evs) \<le> 30"
    using count_wait_removed[OF w] by simp
  have gone: "r \<and> evs = concat (replicate k [GetModels, Sleep 10]) @ [GetModels]"
    if "k < 30" "model_name \<notin> set (models_at list_models k)"
      "\<forall>i < k. model_name \<in> set (models_at list_models i)" for k
  proof -
    have split: "[0..<30] = [0..<k] @ k # [Suc k..<30]"
      using that(1) by (metis less_imp_le_nat upt_add_eq_append upt_conv_Cons zero_le le_add_diff_inverse)
    have "?w = ((True, concat (map (\<lambda>i. [GetModels, Sleep 10]) [0..<k]) @ [GetModels]), s1)"
      unfolding split using that c1 by (intro wait_removed_absent) auto
    moreover have "concat (map (\<lambda>i. [GetModels, Sleep 10]) [0..<k]) = concat (replicate k [GetModels, Sleep 10])"
      by (simp add: map_replicate_const)
    ultimately show ?thesis using w by simp
  qed
  have stay: "\<not> r \<and> evs = concat (replicate 30 [GetModels, Sleep 10])"
    if "\<forall>i < 30. model_name \<in> set (models_at list_models i)"
  proof -
    have "?w = ((False, concat (map (\<lambda>i. [GetModels, Sleep 10]) [0..<30])), s1)"
      using that c1 by (intro wait_removed_present) auto
    moreover have "concat (map (\<lambda>i. [GetModels, Sleep 10]) [0..<30]) = concat (replicate 30 [GetModels, Sleep 10])"
      by (simp only: map_replicate_const length_upt diff_zero)
    ultimately show ?thesis using w by simp
  qed
  show ?thesis using dm cnt gone stay by blast
qed

theorem destroy_model_wait_terminates_witness:
  "fst (destroy_model JujuHelper_init (Inr ()) (Inr ()) gone_after_two ''openstack'' True)
     = (True, [GetModels, Sleep 10, GetModels, Sleep 10, GetModels])
 \<and> fst (destroy_model JujuHelper_init (Inr ()) (Inr ()) never_gone ''openstack'' True)
     = (False, concat (replicate 30 [GetModels, Sleep 10]))"
proof -
  have a: "''openstack'' \<notin> set (models_at gone_after_two 2)"
    by (simp add: models_at_def gone_after_two_def)
  have b: "\<forall>i < 2. ''openstack'' \<in> set (models_at gone_after_two i)"
    by (simp add: models_at_def gone_after_two_def)
  have c: "\<forall>i < 30. ''openstack'' \<in> set (models_at never_gone i)"
    by (simp add: models_at_def never_gone_def)
  have two: "concat (replicate 2 [GetModels, Sleep 10]) @ [GetModels]
      = [GetModels, Sleep 10, GetModels, Sleep 10, GetModels]"
    by (simp add: numeral_2_eq_2)
  obtain r evs s where
    dm: "destroy_model JujuHelper_init (Inr ()) (Inr ()) gone_after_two ''openstack'' True
           = ((r, evs), s)"
    and g: "\<forall>k < 30. ''openstack'' \<notin> set (models_at gone_after_two k)
                \<and> (\<forall>i < k. ''openstack'' \<in> set (models_at gone_after_two i))
              \<longrightarrow> r \<and> evs = concat (replicate k [GetModels, Sleep 10]) @ [GetModels]"
    using destroy_model_wait_terminates
      [of "Inr ()" JujuHelper_init "Inr ()" gone_after_two "''openstack''"]
    by blast
  have "(2::nat) < 30" by simp
  with g a b have "r \<and> evs = concat (replicate 2 [GetModels, Sleep 10]) @ [GetModels]"
    by blast
  with dm two have first:
    "fst (destroy_model JujuHelper_init (Inr ()) (Inr ()) gone_after_two ''openstack'' True)
     = (True, [GetModels, Sleep 10, GetModels, Sleep 10, GetModels])"
    by simp
  obtain r' evs' s' where
    dm': "destroy_model JujuHelper_init (Inr ()) (Inr ()) never_gone ''openstack'' True
           = ((r', evs'), s')"
    and st: "(\<forall>i < 30. ''openstack'' \<in> set (models_at never_gone i))
              \<longrightarrow> \<not> r' \<and> evs' = concat (replicate 30 [GetModels, Sleep 10])"
    using destroy_model_wait_terminates
      [of "Inr ()" JujuHelper_init "Inr ()" never_gone "''openstack''"]
    by blast
  from st c have "\<not> r' \<and> evs' = concat (replicate 30 [GetModels, Sleep 10])" by blast
  with dm' have second:
    "fst (destroy_model JujuHelper_init (Inr ()) (Inr ()) never_gone ''openstack'' True)
     = (False, concat (replicate 30 [GetModels, Sleep 10]))"
    by simp
  from first second show ?thesis by (rule conjI)
qed

section \<open>The plan runner\<close>

lemmas run_plan_splits = prod.splits outcome.splits bool.splits if_splits

lemma run_plan_index_bounds:
  "run_plan i plan w = (x, evs, w') \<Longrightarrow> ev \<in> set evs \<Longrightarrow> step_index ev = Some j
     \<Longrightarrow> i \<le> j \<and> j < i + length plan"
proof (induction plan arbitrary: i w x evs w')
  case Nil
  then show ?case by simp
next
  case (Cons step rest)
  from Cons.prems show ?case
    by (auto simp: Let_def split: run_plan_splits dest!: Cons.IH)
qed

lemma run_plan_Cons_cases:
  assumes "run_plan i (step # rest) w = (x, evs, w')"
  obtains
    (skip_hang) w1 where "is_skip step w = (Hang, w1)" "x = Hung"
      "evs = [Debug (''Starting step '' @ name step), Status (description step @ '' ... ''),
              IsSkipCall i]"
  | (skip_raise) e w1 where "is_skip step w = (Raise e, w1)" "x = Uncaught e"
      "evs = [Debug (''Starting step '' @ name step), Status (description step @ '' ... ''),
              IsSkipCall i]"
  | (skipped) w1 evs2 where "is_skip step w = (Return True, w1)"
      "run_plan (Suc i) rest w1 = (x, evs2, w')"
      "evs = [Debug (''Starting step '' @ name step), Status (description step @ '' ... ''),
              IsSkipCall i, IsSkipReturn i True, Debug (''Skipping step '' @ name step),
              Print (description step @ '' ... '' @ ''[green]done[/green]'')] @ evs2"
  | (run_hang) w1 w2 where "is_skip step w = (Return False, w1)" "run step w1 = (Hang, w2)"
      "x = Hung"
      "evs = [Debug (''Starting step '' @ name step), Status (description step @ '' ... ''),
              IsSkipCall i, IsSkipReturn i False, Debug (''Running step '' @ name step),
              RunCall i]"
  | (run_raise) e w1 w2 where "is_skip step w = (Return False, w1)"
      "run step w1 = (Raise e, w2)" "x = Uncaught e"
      "evs = [Debug (''Starting step '' @ name step), Status (description step @ '' ... ''),
              IsSkipCall i, IsSkipReturn i False, Debug (''Running step '' @ name step),
              RunCall i]"
  | (failed) result w1 where "is_skip step w = (Return False, w1)"
      "run step w1 = (Return result, w')" "result_type result = FAILED"
      "x = ClickException (Result.message result)"
      "evs = [Debug (''Starting step '' @ name step), Status (description step @ '' ... ''),
              IsSkipCall i, IsSkipReturn i False, Debug (''Running step '' @ name step),
              RunCall i, RunReturn i result,
              Debug (''Finished running step '' @ name step @ ''. '' @ ''Result: ''
                       @ str_ResultType (result_type result)),
              Print (description step @ '' ... '' @ ''[red]failed[/red]'')]"
  | (ran) result w1 w2 evs2 where "is_skip step w = (Return False, w1)"
      "run step w1 = (Return result, w2)" "result_type result \<noteq> FAILED"
      "run_plan (Suc i) rest w2 = (x, evs2, w')"
      "evs = [Debug (''Starting step '' @ name step), Status (description step @ '' ... ''),
              IsSkipCall i, IsSkipReturn i False, Debug (''Running step '' @ name step),
              RunCall i, RunReturn i result,
              Debug (''Finished running step '' @ name step @ ''. '' @ ''Result: ''
                       @ str_ResultType (result_type result)),
              Print (description step @ '' ... '' @ ''[green]done[/green]'')] @ evs2"
  using assms
  by (auto simp: Let_def split: run_plan_splits)

lemma run_plan_failed_general:
  assumes "run_plan i plan w = (x, evs, w')"
    and "RunReturn j result \<in> set evs"
    and "result_type result = FAILED"
  shows "i \<le> j \<and> j < i + length plan
       \<and> x = ClickException (Result.message result)
       \<and> (\<exists>before d. evs = before @ [RunReturn j result, Debug d,
              Print (description (plan ! (j - i)) @ '' ... '' @ ''[red]failed[/red]'')])
       \<and> (\<forall>k > j. IsSkipCall k \<notin> set evs \<and> RunCall k \<notin> set evs)"
  using assms
proof (induction plan arbitrary: i w x evs w')
  case Nil
  then show ?case by simp
next
  case (Cons step rest)
  from Cons.prems(1) show ?case
  proof (cases rule: run_plan_Cons_cases)
    case (skipped w1 evs2)
    from Cons.prems(2) skipped(3) have "RunReturn j result \<in> set evs2" by simp
    from Cons.IH[OF skipped(2) this Cons.prems(3)] obtain before d where
      b: "Suc i \<le> j" "j < Suc i + length rest" "x = ClickException (Result.message result)"
      and e: "evs2 = before @ [RunReturn j result, Debug d,
              Print (description (rest ! (j - Suc i)) @ '' ... '' @ ''[red]failed[/red]'')]"
      and n: "\<forall>k > j. IsSkipCall k \<notin> set evs2 \<and> RunCall k \<notin> set evs2"
      by blast
    have nth: "(step # rest) ! (j - i) = rest ! (j - Suc i)"
      using b(1) by (simp add: Suc_diff_le)
    show ?thesis
      unfolding skipped(3) e nth using b n e by auto
  next
    case (failed result0 w1)
    with Cons.prems(2,3) show ?thesis by auto
  next
    case (ran result0 w1 w2 evs2)
    from Cons.prems(2,3) ran(3,5) have "RunReturn j result \<in> set evs2" by auto
    from Cons.IH[OF ran(4) this Cons.prems(3)] obtain before d where
      b: "Suc i \<le> j" "j < Suc i + length rest" "x = ClickException (Result.message result)"
      and e: "evs2 = before @ [RunReturn j result, Debug d,
              Print (description (rest ! (j - Suc i)) @ '' ... '' @ ''[red]failed[/red]'')]"
      and n: "\<forall>k > j. IsSkipCall k \<notin> set evs2 \<and> RunCall k \<notin> set evs2"
      by blast
    have nth: "(step # rest) ! (j - i) = rest ! (j - Suc i)"
      using b(1) by (simp add: Suc_diff_le)
    show ?thesis
      unfolding ran(5) e nth using b n e by auto
  qed (use Cons.prems(2) in auto)
qed

lemma run_plan_Nil_result: "run_plan i [] w = (x, evs, w') \<Longrightarrow> evs = [] \<and> x = Finished"
  by simp

lemma run_plan_starts:
  assumes "run_plan i (step # rest) w = (x, evs, w')"
  shows "\<exists>after. evs = [Debug (''Starting step '' @ name step),
                         Status (description step @ '' ... ''), IsSkipCall i] @ after"
  using assms by (cases rule: run_plan_Cons_cases) auto

lemma run_after_skip_test:
  assumes "run_plan i plan w = (x, evs, w')" and "RunCall j \<in> set evs"
  shows "\<exists>before after. evs = before @ [IsSkipCall j, IsSkipReturn j False,
            Debug (''Running step '' @ name (plan ! (j - i))), RunCall j] @ after"
  using assms
proof (induction plan arbitrary: i w x evs w')
  case Nil
  then show ?case by simp
next
  case (Cons step rest)
  let ?pre = "[Debug (''Starting step '' @ name step), Status (description step @ '' ... '')]"
  have tail: "\<exists>before after. evs = before @ [IsSkipCall j, IsSkipReturn j False,
            Debug (''Running step '' @ name ((step # rest) ! (j - i))), RunCall j] @ after"
    if rp: "run_plan (Suc i) rest w1 = (x, evs2, w')" and mem: "RunCall j \<in> set evs2"
      and ev: "evs = hd_evs @ evs2" for w1 evs2 hd_evs
  proof -
    from run_plan_index_bounds[OF rp mem] have ij: "Suc i \<le> j" by simp
    then have nth: "(step # rest) ! (j - i) = rest ! (j - Suc i)" by (simp add: Suc_diff_le)
    from Cons.IH[OF rp mem] obtain before after where
      "evs2 = before @ [IsSkipCall j, IsSkipReturn j False,
            Debug (''Running step '' @ name (rest ! (j - Suc i))), RunCall j] @ after" by blast
    then have "evs = (hd_evs @ before) @ [IsSkipCall j, IsSkipReturn j False,
            Debug (''Running step '' @ name ((step # rest) ! (j - i))), RunCall j] @ after"
      using ev nth by simp
    then show ?thesis by blast
  qed
  have head: "\<exists>before after. evs = before @ [IsSkipCall j, IsSkipReturn j False,
            Debug (''Running step '' @ name ((step # rest) ! (j - i))), RunCall j] @ after"
    if "j = i" and "evs = ?pre @ [IsSkipCall i, IsSkipReturn i False,
            Debug (''Running step '' @ name step), RunCall i] @ after0" for after0
    using that by (intro exI[of _ ?pre] exI[of _ after0]) simp
  from Cons.prems(1) show ?case
  proof (cases rule: run_plan_Cons_cases)
    case (skipped w1 evs2)
    from Cons.prems(2) skipped(3) have "RunCall j \<in> set evs2" by simp
    from tail[OF skipped(2) this] skipped(3) show ?thesis by simp
  next
    case (run_hang w1 w2)
    with Cons.prems(2) have "j = i" by simp
    from head[OF this, of "[]"] run_hang(4) show ?thesis by simp
  next
    case (run_raise e w1 w2)
    with Cons.prems(2) have "j = i" by simp
    from head[OF this, of "[]"] run_raise(4) show ?thesis by simp
  next
    case (failed result0 w1)
    with Cons.prems(2) have "j = i" by simp
    from head[OF this] failed(5) show ?thesis by simp
  next
    case (ran result0 w1 w2 evs2)
    show ?thesis
    proof (cases "j = i")
      case True
      from head[OF this] ran(5) show ?thesis by simp
    next
      case False
      with Cons.prems(2) ran(5) have "RunCall j \<in> set evs2" by simp
      from tail[OF ran(4) this] ran(5) show ?thesis by simp
    qed
  qed (use Cons.prems(2) in auto)
qed

lemma skipped_step_general:
  assumes "run_plan i plan w = (x, evs, w')" and "IsSkipReturn j True \<in> set evs"
  shows "RunCall j \<notin> set evs
       \<and> (\<exists>before after. evs = before @ [IsSkipCall j, IsSkipReturn j True,
              Debug (''Skipping step '' @ name (plan ! (j - i))),
              Print (description (plan ! (j - i)) @ '' ... '' @ ''[green]done[/green]'')] @ after
            \<and> (if Suc j < i + length plan
                then \<exists>rest. after = [Debug (''Starting step '' @ name (plan ! (Suc j - i))),
                       Status (description (plan ! (Suc j - i)) @ '' ... ''),
                       IsSkipCall (Suc j)] @ rest
                else after = [] \<and> x = Finished))"
  using assms
proof (induction plan arbitrary: i w x evs w')
  case Nil
  then show ?case by simp
next
  case (Cons step rest)
  have tail: ?case
    if rp: "run_plan (Suc i) rest w1 = (x, evs2, w')" and mem: "IsSkipReturn j True \<in> set evs2"
      and ev: "evs = hd_evs @ evs2" and hd: "RunCall j \<notin> set hd_evs" for w1 evs2 hd_evs
  proof -
    from run_plan_index_bounds[OF rp mem] have ij: "Suc i \<le> j" by simp
    then have nth: "(step # rest) ! (j - i) = rest ! (j - Suc i)"
      "(step # rest) ! (Suc j - i) = rest ! (Suc j - Suc i)"
      by (simp_all add: Suc_diff_le)
    from Cons.IH[OF rp mem] obtain before after where
      no: "RunCall j \<notin> set evs2"
      and e: "evs2 = before @ [IsSkipCall j, IsSkipReturn j True,
              Debug (''Skipping step '' @ name (rest ! (j - Suc i))),
              Print (description (rest ! (j - Suc i)) @ '' ... '' @ ''[green]done[/green]'')] @ after"
      and nx: "if Suc j < Suc i + length rest
                then \<exists>rest'. after = [Debug (''Starting step '' @ name (rest ! (Suc j - Suc i))),
                       Status (description (rest ! (Suc j - Suc i)) @ '' ... ''),
                       IsSkipCall (Suc j)] @ rest'
                else after = [] \<and> x = Finished"
      by blast
    have e': "evs = (hd_evs @ before) @ [IsSkipCall j, IsSkipReturn j True,
              Debug (''Skipping step '' @ name ((step # rest) ! (j - i))),
              Print (description ((step # rest) ! (j - i)) @ '' ... '' @ ''[green]done[/green]'')] @ after"
      using ev e nth by simp
    have nx': "if Suc j < i + length (step # rest)
                then \<exists>rest'. after = [Debug (''Starting step '' @ name ((step # rest) ! (Suc j - i))),
                       Status (description ((step # rest) ! (Suc j - i)) @ '' ... ''),
                       IsSkipCall (Suc j)] @ rest'
                else after = [] \<and> x = Finished"
      using nx nth by (auto split: if_splits)
    have "RunCall j \<notin> set evs" using no hd ev by simp
    with e' nx' show ?thesis by blast
  qed
  from Cons.prems(1) show ?case
  proof (cases rule: run_plan_Cons_cases)
    case (skipped w1 evs2)
    show ?thesis
    proof (cases "j = i")
      case True
      have no: "RunCall j \<notin> set evs"
        using run_plan_index_bounds[OF skipped(2), of "RunCall j" j] skipped(3) True by auto
      let ?pre = "[Debug (''Starting step '' @ name step), Status (description step @ '' ... '')]"
      have e: "evs = ?pre @ [IsSkipCall j, IsSkipReturn j True,
              Debug (''Skipping step '' @ name ((step # rest) ! (j - i))),
              Print (description ((step # rest) ! (j - i)) @ '' ... '' @ ''[green]done[/green]'')] @ evs2"
        using skipped(3) True by simp
      have nx: "if Suc j < i + length (step # rest)
                then \<exists>rest'. evs2 = [Debug (''Starting step '' @ name ((step # rest) ! (Suc j - i))),
                       Status (description ((step # rest) ! (Suc j - i)) @ '' ... ''),
                       IsSkipCall (Suc j)] @ rest'
                else evs2 = [] \<and> x = Finished"
      proof (cases rest)
        case Nil
        with skipped(2) True show ?thesis by simp
      next
        case (Cons step2 rest2)
        from run_plan_starts[OF skipped(2)[unfolded Cons]] True Cons show ?thesis by simp
      qed
      from no e nx show ?thesis by blast
    next
      case False
      with Cons.prems(2) skipped(3) have "IsSkipReturn j True \<in> set evs2" by simp
      from tail[OF skipped(2) this skipped(3)] show ?thesis by simp
    qed
  next
    case (ran result0 w1 w2 evs2)
    from Cons.prems(2) ran(5) have mem: "IsSkipReturn j True \<in> set evs2" by simp
    from run_plan_index_bounds[OF ran(4) mem] have "j \<noteq> i" by simp
    with tail[OF ran(4) mem ran(5)] show ?thesis by simp
  qed (use Cons.prems(2) in auto)
qed

lemmas cluster_step_defs =
  ClusterAddNodeStep_step_def ClusterInitStep_step_def ClusterJoinNodeStep_step_def lift_call_def
  ClusterAddNodeStep_is_skip_def ClusterAddNodeStep_run_def
  ClusterInitStep_is_skip_def ClusterInitStep_run_def
  ClusterJoinNodeStep_is_skip_def ClusterJoinNodeStep_run_def
  probe_membership_def member_get_def mk_Result_def

text \<open>
  Claim C1. When the \<open>run\<close> of the step at position \<open>j\<close> of a plan returns a FAILED
  Result, the runner makes no call of \<open>is_skip\<close> or \<open>run\<close> of a step at a later position:
  what it does ends with that return, the debug line and the console line made of the
  description of the failing step and "failed", and the command ends with a
  \<open>ClickException\<close> that carries the message of the Result.
\<close>

theorem stop_on_failure:
  assumes "run_plan 0 plan w = (x, evs, w')"
    and "RunReturn j result \<in> set evs"
    and "result_type result = FAILED"
  shows "j < length plan
       \<and> x = ClickException (Result.message result)
       \<and> (\<exists>before d. evs = before @ [RunReturn j result, Debug d,
              Print (description (plan ! j) @ '' ... '' @ ''[red]failed[/red]'')])
       \<and> (\<forall>k > j. IsSkipCall k \<notin> set evs \<and> RunCall k \<notin> set evs)"
  using run_plan_failed_general[OF assms] by simp

theorem stop_on_failure_witness:
  "run_plan 0 failing_plan ()
     = (ClickException (Str ''Token already generated for the node''),
        [Debug ''Starting step Add Node Cluster'',
         Status ''Generate token for new node to add to cluster ... '',
         IsSkipCall 0, IsSkipReturn 0 False,
         Debug ''Running step Add Node Cluster'', RunCall 0,
         RunReturn 0 \<lparr>result_type = FAILED,
                       message = Str ''Token already generated for the node''\<rparr>,
         Debug ''Finished running step Add Node Cluster. Result: ResultType.FAILED'',
         Print ''Generate token for new node to add to cluster ... [red]failed[/red]''], ())
   \<and> IsSkipCall 1 \<notin> set (fst (snd (run_plan 0 failing_plan ())))
   \<and> RunCall 1 \<notin> set (fst (snd (run_plan 0 failing_plan ())))"
proof -
  let ?r = "\<lparr>result_type = FAILED, message = Str ''Token already generated for the node''\<rparr>"
  let ?evs = "[Debug ''Starting step Add Node Cluster'',
         Status ''Generate token for new node to add to cluster ... '',
         IsSkipCall 0, IsSkipReturn 0 False,
         Debug ''Running step Add Node Cluster'', RunCall 0,
         RunReturn 0 ?r,
         Debug ''Finished running step Add Node Cluster. Result: ResultType.FAILED'',
         Print ''Generate token for new node to add to cluster ... [red]failed[/red]'']"
  have ev: "run_plan 0 failing_plan ()
     = (ClickException (Str ''Token already generated for the node''), ?evs, ())"
    by (simp add: failing_plan_def cluster_step_defs token_issued_client_def Let_def)
  have mem: "RunReturn 0 ?r \<in> set ?evs" by simp
  have "\<forall>k > 0. IsSkipCall k \<notin> set ?evs \<and> RunCall k \<notin> set ?evs"
    using stop_on_failure[OF ev mem] by simp
  then have "IsSkipCall 1 \<notin> set ?evs \<and> RunCall 1 \<notin> set ?evs" by (simp del: set_simps)
  with ev show ?thesis by (simp del: set_simps)
qed

text \<open>
  Claim C8, as amended. The runner calls \<open>run\<close> of a step only right after \<open>is_skip\<close> of
  that step has returned \<open>False\<close>. When \<open>is_skip\<close> of the step at position \<open>j\<close> returns
  \<open>True\<close>, \<open>run\<close> of that step is never called, the runner writes the debug line
  "Skipping step" with the name of the step and prints the console line of the step,
  which ends in "done" as the line of a completed step does, and it goes on with the
  step at position \<open>j + 1\<close>, or finishes when there is none. No Result with the tag
  SKIPPED is built.
\<close>

theorem skip_then_run:
  assumes "run_plan 0 plan w = (x, evs, w')"
  shows "(RunCall j \<in> set evs \<longrightarrow>
            (\<exists>before after. evs = before @ [IsSkipCall j, IsSkipReturn j False,
               Debug (''Running step '' @ name (plan ! j)), RunCall j] @ after))
       \<and> (IsSkipReturn j True \<in> set evs \<longrightarrow>
            RunCall j \<notin> set evs
          \<and> (\<exists>before after. evs = before @ [IsSkipCall j, IsSkipReturn j True,
                Debug (''Skipping step '' @ name (plan ! j)),
                Print (description (plan ! j) @ '' ... '' @ ''[green]done[/green]'')] @ after
              \<and> (if Suc j < length plan
                  then \<exists>rest. after = [Debug (''Starting step '' @ name (plan ! Suc j)),
                         Status (description (plan ! Suc j) @ '' ... ''),
                         IsSkipCall (Suc j)] @ rest
                  else after = [] \<and> x = Finished)))"
proof (intro conjI impI)
  assume "RunCall j \<in> set evs"
  from run_after_skip_test[OF assms this]
  show "\<exists>before after. evs = before @ [IsSkipCall j, IsSkipReturn j False,
               Debug (''Running step '' @ name (plan ! j)), RunCall j] @ after"
    by (simp only: diff_zero)
next
  assume "IsSkipReturn j True \<in> set evs"
  from skipped_step_general[OF assms this]
  show "RunCall j \<notin> set evs" by (rule conjunct1)
next
  assume "IsSkipReturn j True \<in> set evs"
  from skipped_step_general[OF assms this]
  show "\<exists>before after. evs = before @ [IsSkipCall j, IsSkipReturn j True,
                Debug (''Skipping step '' @ name (plan ! j)),
                Print (description (plan ! j) @ '' ... '' @ ''[green]done[/green]'')] @ after
              \<and> (if Suc j < length plan
                  then \<exists>rest. after = [Debug (''Starting step '' @ name (plan ! Suc j)),
                         Status (description (plan ! Suc j) @ '' ... ''),
                         IsSkipCall (Suc j)] @ rest
                  else after = [] \<and> x = Finished)"
    by (simp only: diff_zero add_0)
qed

theorem skip_then_run_witness:
  "run_plan 0 skipping_plan ()
     = (Finished,
        [Debug ''Starting step Bootstrap Cluster'',
         Status ''Bootstrapping microstack cluster ... '',
         IsSkipCall 0, IsSkipReturn 0 True,
         Debug ''Skipping step Bootstrap Cluster'',
         Print ''Bootstrapping microstack cluster ... [green]done[/green]'',
         Debug ''Starting step Add Node Cluster'',
         Status ''Generate token for new node to add to cluster ... '',
         IsSkipCall 1, IsSkipReturn 1 False,
         Debug ''Running step Add Node Cluster'', RunCall 1,
         RunReturn 1 \<lparr>result_type = COMPLETED, message = Str ''T''\<rparr>,
         Debug ''Finished running step Add Node Cluster. Result: ResultType.COMPLETED'',
         Print ''Generate token for new node to add to cluster ... [green]done[/green]''], ())
   \<and> RunCall 0 \<notin> set (fst (snd (run_plan 0 skipping_plan ())))"
proof -
  let ?evs = "[Debug ''Starting step Bootstrap Cluster'',
         Status ''Bootstrapping microstack cluster ... '',
         IsSkipCall 0, IsSkipReturn 0 True,
         Debug ''Skipping step Bootstrap Cluster'',
         Print ''Bootstrapping microstack cluster ... [green]done[/green]'',
         Debug ''Starting step Add Node Cluster'',
         Status ''Generate token for new node to add to cluster ... '',
         IsSkipCall 1, IsSkipReturn 1 False,
         Debug ''Running step Add Node Cluster'', RunCall 1,
         RunReturn 1 \<lparr>result_type = COMPLETED, message = Str ''T''\<rparr>,
         Debug ''Finished running step Add Node Cluster. Result: ResultType.COMPLETED'',
         Print ''Generate token for new node to add to cluster ... [green]done[/green]'']"
  have ev: "run_plan 0 skipping_plan () = (Finished, ?evs, ())"
    by (simp add: skipping_plan_def cluster_step_defs healthy_client_def Let_def)
  have mem: "IsSkipReturn 0 True \<in> set ?evs" by simp
  have "RunCall 0 \<notin> set ?evs"
    using skip_then_run[OF ev, of 0] mem by blast
  with ev show ?thesis by (simp del: set_simps)
qed

text \<open>
  The claim as it was stated fails: in the run of a plan whose first step is skipped,
  nothing that the runner writes, prints or receives records the tag SKIPPED.
\<close>

theorem skipped_step_not_recorded_counterexample:
  "run_plan 0 skipping_plan ()
     = (Finished,
        [Debug ''Starting step Bootstrap Cluster'',
         Status ''Bootstrapping microstack cluster ... '',
         IsSkipCall 0, IsSkipReturn 0 True,
         Debug ''Skipping step Bootstrap Cluster'',
         Print ''Bootstrapping microstack cluster ... [green]done[/green]'',
         Debug ''Starting step Add Node Cluster'',
         Status ''Generate token for new node to add to cluster ... '',
         IsSkipCall 1, IsSkipReturn 1 False,
         Debug ''Running step Add Node Cluster'', RunCall 1,
         RunReturn 1 \<lparr>result_type = COMPLETED, message = Str ''T''\<rparr>,
         Debug ''Finished running step Add Node Cluster. Result: ResultType.COMPLETED'',
         Print ''Generate token for new node to add to cluster ... [green]done[/green]''], ())
   \<and> \<not> list_ex records_SKIPPED (fst (snd (run_plan 0 skipping_plan ())))"
proof -
  have ev: "run_plan 0 skipping_plan ()
     = (Finished,
        [Debug ''Starting step Bootstrap Cluster'',
         Status ''Bootstrapping microstack cluster ... '',
         IsSkipCall 0, IsSkipReturn 0 True,
         Debug ''Skipping step Bootstrap Cluster'',
         Print ''Bootstrapping microstack cluster ... [green]done[/green]'',
         Debug ''Starting step Add Node Cluster'',
         Status ''Generate token for new node to add to cluster ... '',
         IsSkipCall 1, IsSkipReturn 1 False,
         Debug ''Running step Add Node Cluster'', RunCall 1,
         RunReturn 1 \<lparr>result_type = COMPLETED, message = Str ''T''\<rparr>,
         Debug ''Finished running step Add Node Cluster. Result: ResultType.COMPLETED'',
         Print ''Generate token for new node to add to cluster ... [green]done[/green]''], ())"
    by (simp add: skipping_plan_def cluster_step_defs healthy_client_def Let_def)
  show ?thesis
    unfolding ev by simp
qed

section \<open>Disconnecting the helper\<close>

lemma run_plan_no_disconnect:
  "run_plan i plan w = (x, evs, w') \<Longrightarrow> DisconnectCall \<notin> set evs"
proof (induction plan arbitrary: i w x evs w')
  case Nil
  then show ?case by simp
next
  case (Cons step rest)
  from Cons.prems show ?case
    by (cases rule: run_plan_Cons_cases) (auto dest: Cons.IH)
qed

lemma run_checks_no_disconnect:
  "run_checks cs = (x, evs) \<Longrightarrow> DisconnectCall \<notin> set evs"
  by (induction cs arbitrary: x evs) (auto simp: Let_def split: if_splits prod.splits)

lemma bootstrap_disconnect_iff:
  "DisconnectCall \<in> set (fst (snd (bootstrap has_superuser_privileges role preflight_checks
                                       plan disconnect r)))
     \<longleftrightarrow> (\<not> has_superuser_privileges
          \<and> fst (run_checks preflight_checks) = Finished
          \<and> fst (run_plan 0 plan \<lparr>jhelper = JujuHelper_init, remote = r\<rparr>) = Finished)"
proof -
  obtain x1 evs1 where c: "run_checks preflight_checks = (x1, evs1)"
    by (cases "run_checks preflight_checks")
  obtain x2 evs2 w' where p: "run_plan 0 plan \<lparr>jhelper = JujuHelper_init, remote = r\<rparr> = (x2, evs2, w')"
    by (metis prod.exhaust)
  note n1 = run_checks_no_disconnect[OF c]
  note n2 = run_plan_no_disconnect[OF p]
  show ?thesis
  proof (cases has_superuser_privileges)
    case True
    then show ?thesis by (simp add: bootstrap_def Let_def)
  next
    case False
    show ?thesis
    proof (cases "x1 = Finished")
      case False
      with \<open>\<not> has_superuser_privileges\<close> c n1 show ?thesis
        by (cases x1) (simp_all add: bootstrap_def Let_def)
    next
      case True
      show ?thesis
      proof (cases "x2 = Finished")
        case False
        with \<open>\<not> has_superuser_privileges\<close> \<open>x1 = Finished\<close> c p n1 n2 show ?thesis
          by (cases x2) (simp_all add: bootstrap_def Let_def)
      next
        case True
        with \<open>\<not> has_superuser_privileges\<close> \<open>x1 = Finished\<close> c p show ?thesis
          by (simp add: bootstrap_def Let_def split: sum.splits)
      qed
    qed
  qed
qed

text \<open>
  Claim C10, as amended. On a helper whose \<open>controller\<close> is still \<open>None\<close>,
  \<open>disconnect_controller\<close> raises (an \<open>AttributeError\<close>) whatever \<open>disconnect\<close> would do. The
  command \<open>bootstrap\<close> calls it as its last statement with no test of the helper, in the
  runs that reach that statement: the call is made if and only if the command is not
  run as root, the checks pass and the plan runs to its end. Such a run ends the way
  \<open>disconnect_controller\<close> ends, and so with the uncaught \<open>AttributeError\<close> when no step
  has connected the helper.
\<close>

theorem disconnect_unconnected_helper:
  "disconnect_controller JujuHelper_init disconnect
     = Inl (AttributeError ''NoneType object has no attribute disconnect'')
 \<and> (\<not> has_superuser_privileges
      \<and> run_checks preflight_checks = (Finished, evs1)
      \<and> run_plan 0 plan \<lparr>jhelper = JujuHelper_init, remote = r\<rparr> = (Finished, evs2, w')
    \<longrightarrow> bootstrap has_superuser_privileges role preflight_checks plan disconnect r
          = (case disconnect_controller (jhelper w') disconnect of
               Inl e \<Rightarrow> Uncaught e | Inr u \<Rightarrow> Finished,
             evs1 @ evs2 @ [Echo (''Node has been bootstrapped as a '' @ role @ '' node''),
                            DisconnectCall],
             w')
        \<and> (controller (jhelper w') = None
             \<longrightarrow> fst (bootstrap has_superuser_privileges role preflight_checks plan disconnect r)
                   = Uncaught (AttributeError ''NoneType object has no attribute disconnect'')))
 \<and> (DisconnectCall \<in> set (fst (snd (bootstrap has_superuser_privileges role preflight_checks
                                        plan disconnect r)))
      \<longleftrightarrow> (\<not> has_superuser_privileges
           \<and> fst (run_checks preflight_checks) = Finished
           \<and> fst (run_plan 0 plan \<lparr>jhelper = JujuHelper_init, remote = r\<rparr>) = Finished))"
proof (intro conjI)
  show "disconnect_controller JujuHelper_init disconnect
     = Inl (AttributeError ''NoneType object has no attribute disconnect'')"
    by (simp add: disconnect_controller_def JujuHelper_init_def)
  show "\<not> has_superuser_privileges
      \<and> run_checks preflight_checks = (Finished, evs1)
      \<and> run_plan 0 plan \<lparr>jhelper = JujuHelper_init, remote = r\<rparr> = (Finished, evs2, w')
    \<longrightarrow> bootstrap has_superuser_privileges role preflight_checks plan disconnect r
          = (case disconnect_controller (jhelper w') disconnect of
               Inl e \<Rightarrow> Uncaught e | Inr u \<Rightarrow> Finished,
             evs1 @ evs2 @ [Echo (''Node has been bootstrapped as a '' @ role @ '' node''),
                            DisconnectCall],
             w')
        \<and> (controller (jhelper w') = None
             \<longrightarrow> fst (bootstrap has_superuser_privileges role preflight_checks plan disconnect r)
                   = Uncaught (AttributeError ''NoneType object has no attribute disconnect''))"
    by (auto simp: disconnect_controller_def bootstrap_def Let_def split: sum.splits)
  show "DisconnectCall \<in> set (fst (snd (bootstrap has_superuser_privileges role preflight_checks
                                        plan disconnect r)))
      \<longleftrightarrow> (\<not> has_superuser_privileges
           \<and> fst (run_checks preflight_checks) = Finished
           \<and> fst (run_plan 0 plan \<lparr>jhelper = JujuHelper_init, remote = r\<rparr>) = Finished)"
    by (rule bootstrap_disconnect_iff)
qed

lemma skipped_bootstrap_plan_runs:
  "run_plan 0 skipped_bootstrap_plan \<lparr>jhelper = JujuHelper_init, remote = ()\<rparr>
     = (Finished,
        [Debug ''Starting step Bootstrap Juju'',
         Status ''Bootstrapping Juju into microk8s ... '',
         IsSkipCall 0, IsSkipReturn 0 True,
         Debug ''Skipping step Bootstrap Juju'',
         Print ''Bootstrapping Juju into microk8s ... [green]done[/green]''],
        \<lparr>jhelper = JujuHelper_init, remote = ()\<rparr>)"
  by (simp add: skipped_bootstrap_plan_def BootstrapJujuStep_step_def lift_call_def
      BootstrapJujuStep_is_skip_def BootstrapJujuStep_is_skip_body_def juju_cmd_def
      bootstrapped_env_def Let_def)

theorem disconnect_unconnected_helper_witness:
  "bootstrap False ''control'' [] skipped_bootstrap_plan (Inr ()) ()
     = (Uncaught (AttributeError ''NoneType object has no attribute disconnect''),
        [Debug ''Starting step Bootstrap Juju'',
         Status ''Bootstrapping Juju into microk8s ... '',
         IsSkipCall 0, IsSkipReturn 0 True,
         Debug ''Skipping step Bootstrap Juju'',
         Print ''Bootstrapping Juju into microk8s ... [green]done[/green]'',
         Echo ''Node has been bootstrapped as a control node'',
         DisconnectCall],
        \<lparr>jhelper = JujuHelper_init, remote = ()\<rparr>)"
  using disconnect_unconnected_helper
    [of "Inr ()" False "[]" "[]" skipped_bootstrap_plan "()" _ "\<lparr>jhelper = JujuHelper_init, remote = ()\<rparr>" "''control''"]
    skipped_bootstrap_plan_runs
  by (simp add: disconnect_controller_def JujuHelper_init_def)

text \<open>
  The claim as it was stated fails: a run in which a step returns a FAILED Result ends
  with the \<open>ClickException\<close> and never calls \<open>disconnect_controller\<close>, and neither does a
  run as root.
\<close>

lemma no_cloud_plan_runs:
  "run_plan 0 no_cloud_plan \<lparr>jhelper = JujuHelper_init, remote = ()\<rparr>
     = (ClickException (Str ''Could not find any k8s clouds to bootstrap''),
        [Debug ''Starting step Bootstrap Juju'',
         Status ''Bootstrapping Juju into microk8s ... '',
         IsSkipCall 0, IsSkipReturn 0 False,
         Debug ''Running step Bootstrap Juju'', RunCall 0,
         RunReturn 0 \<lparr>result_type = FAILED,
                       message = Str ''Could not find any k8s clouds to bootstrap''\<rparr>,
         Debug ''Finished running step Bootstrap Juju. Result: ResultType.FAILED'',
         Print ''Bootstrapping Juju into microk8s ... [red]failed[/red]''],
        \<lparr>jhelper = JujuHelper_init, remote = ()\<rparr>)"
  by (simp add: no_cloud_plan_def BootstrapJujuStep_step_def lift_call_def
      BootstrapJujuStep_is_skip_def BootstrapJujuStep_is_skip_body_def
      BootstrapJujuStep_run_def BootstrapJujuStep_run_body_def juju_cmd_def
      no_cloud_env_def mk_Result_def Let_def)

theorem bootstrap_failed_run_counterexample:
  "bootstrap False ''control'' [] no_cloud_plan (Inr ()) ()
     = (ClickException (Str ''Could not find any k8s clouds to bootstrap''),
        [Debug ''Starting step Bootstrap Juju'',
         Status ''Bootstrapping Juju into microk8s ... '',
         IsSkipCall 0, IsSkipReturn 0 False,
         Debug ''Running step Bootstrap Juju'', RunCall 0,
         RunReturn 0 \<lparr>result_type = FAILED,
                       message = Str ''Could not find any k8s clouds to bootstrap''\<rparr>,
         Debug ''Finished running step Bootstrap Juju. Result: ResultType.FAILED'',
         Print ''Bootstrapping Juju into microk8s ... [red]failed[/red]''],
        \<lparr>jhelper = JujuHelper_init, remote = ()\<rparr>)
 \<and> DisconnectCall \<notin> set (fst (snd (bootstrap False ''control'' [] no_cloud_plan (Inr ()) ())))
 \<and> DisconnectCall \<notin> set (fst (snd (bootstrap True ''control'' [] skipped_bootstrap_plan (Inr ()) ())))"
  by (simp add: bootstrap_def no_cloud_plan_runs Let_def)

section \<open>The message of a FAILED Result\<close>

lemma ClusterInitStep_failed_message:
  "described (bootstrap_cluster (init_client i) (init_fqdn i)
                     (init_ip i @ '':'' @ str_nat (init_port i)))
      \<Longrightarrow> ClusterInitStep_run i = Inr r \<Longrightarrow> result_type r = FAILED \<Longrightarrow> nonempty_message r"
  by (auto simp: ClusterInitStep_run_def described_def nonempty_message_def mk_Result_def
      split: sum.splits)

lemma ClusterAddNodeStep_failed_message:
  "described (add_node (add_client a) (add_node_name a) (add_role a))
      \<Longrightarrow> ClusterAddNodeStep_run a = Inr r \<Longrightarrow> result_type r = FAILED \<Longrightarrow> nonempty_message r"
  by (auto simp: ClusterAddNodeStep_run_def described_def nonempty_message_def mk_Result_def
      split: sum.splits exn.splits)

lemma ClusterJoinNodeStep_failed_message:
  "described (join_node (join_client j) (join_fqdn j)
                     (join_ip j @ '':'' @ str_nat (join_port j)) (join_token j))
      \<Longrightarrow> ClusterJoinNodeStep_run j = Inr r \<Longrightarrow> result_type r = FAILED \<Longrightarrow> nonempty_message r"
  by (auto simp: ClusterJoinNodeStep_run_def described_def nonempty_message_def mk_Result_def
      split: sum.splits exn.splits)

lemma BootstrapJujuStep_failed_message:
  "described (BootstrapJujuStep_run_body cloud env)
      \<Longrightarrow> BootstrapJujuStep_run cloud env = Inr r \<Longrightarrow> result_type r = FAILED \<Longrightarrow> nonempty_message r"
  apply (cases "BootstrapJujuStep_run_body cloud env")
  subgoal for e
    by (cases e) (auto simp: BootstrapJujuStep_run_def described_def nonempty_message_def mk_Result_def)
  subgoal for r'
    by (auto simp: BootstrapJujuStep_run_def BootstrapJujuStep_run_body_def nonempty_message_def
        mk_Result_def Let_def split: sum.splits if_splits)
  done

lemma CreateModelStep_failed_message:
  "CreateModelStep_run helper model loop connect controller_add_model = (Inr r, helper')
      \<Longrightarrow> result_type r = FAILED \<Longrightarrow> nonempty_message r"
  by (auto simp: CreateModelStep_run_def nonempty_message_def mk_Result_def
      split: option.splits prod.splits if_splits)

lemma DeployBundleStep_failed_message:
  "DeployBundleStep_run helper bundle_name loop connect get_model deploy block_until
        = Some (Inr r, helper')
      \<Longrightarrow> result_type r = FAILED \<Longrightarrow> nonempty_message r"
  by (auto simp: DeployBundleStep_run_def nonempty_message_def mk_Result_def
      split: option.splits prod.splits if_splits)

lemma DestroyModelStep_failed_message:
  "DestroyModelStep_run helper model loop connect destroy_models list_models
        = (Inr r, helper')
      \<Longrightarrow> result_type r = FAILED \<Longrightarrow> nonempty_message r"
  by (auto simp: DestroyModelStep_run_def nonempty_message_def mk_Result_def
      split: option.splits prod.splits if_splits)

lemma ModelStatusStep_failed_message:
  "described_opt loop
      \<Longrightarrow> ModelStatusStep_run helper timeout loop connect get_model elapsed = Some (Inr r, helper')
      \<Longrightarrow> result_type r = FAILED \<Longrightarrow> nonempty_message r"
  by (auto simp: ModelStatusStep_run_def nonempty_message_def mk_Result_def described_opt_def
      Let_def split: option.splits prod.splits if_splits)

lemma WriteModelStatusStep_failed_message:
  "described_opt loop \<Longrightarrow> described connect \<Longrightarrow> described get_model
      \<Longrightarrow> described get_status \<Longrightarrow> (\<forall>t. described (json_loads t))
      \<Longrightarrow> (\<forall>v. described (write_file v))
      \<Longrightarrow> WriteModelStatusStep_run helper loop connect get_model get_status json_loads write_file
            = (Inr r, helper')
      \<Longrightarrow> result_type r = FAILED \<Longrightarrow> nonempty_message r"
  by (auto simp: WriteModelStatusStep_run_def get_model_status_full_def lazy_connect_def
      nonempty_message_def mk_Result_def described_opt_def described_def
      split: option.splits prod.splits sum.splits if_splits)

lemma WriteCharmLog_failed_message:
  "described open_file \<Longrightarrow> described check_call
      \<Longrightarrow> WriteCharmLog_run open_file check_call = Inr r
      \<Longrightarrow> result_type r = FAILED \<Longrightarrow> nonempty_message r"
  by (auto simp: WriteCharmLog_run_def nonempty_message_def mk_Result_def described_def
      split: sum.splits exn.splits)

lemma DeployControlPlaneStep_failed_message:
  "described apply \<Longrightarrow> described_opt loop \<Longrightarrow> described connect
      \<Longrightarrow> described get_model \<Longrightarrow> (\<forall>x. block_until = Some x \<longrightarrow> described x)
      \<Longrightarrow> DeployControlPlaneStep_run helper write_tfvars apply loop connect get_model block_until
            = Some (Inr r, helper')
      \<Longrightarrow> result_type r = FAILED \<Longrightarrow> nonempty_message r"
  by (auto simp: DeployControlPlaneStep_run_def wait_until_active_def lazy_connect_def
      nonempty_message_def mk_Result_def described_opt_def described_def
      split: option.splits prod.splits sum.splits exn.splits if_splits)

text \<open>
  Claim C9, as amended. In every \<open>run\<close> method of the steps, a Result with the tag FAILED
  carries a message that is a str: a fixed text that is not empty, or the description
  \<open>str(e)\<close> of the fault that the method caught. So the message is not empty whenever
  the faults that the calls of the method raise have descriptions that are not empty.
  (The module \<open>openstack.py\<close> cannot be imported, it names a package that does not exist,
  so its step never runs.)
\<close>

theorem failed_result_message:
  "(described (bootstrap_cluster (init_client i) (init_fqdn i)
                 (init_ip i @ '':'' @ str_nat (init_port i)))
      \<and> ClusterInitStep_run i = Inr r1 \<and> result_type r1 = FAILED
    \<longrightarrow> nonempty_message r1)
 \<and> (described (add_node (add_client a) (add_node_name a) (add_role a))
      \<and> ClusterAddNodeStep_run a = Inr r2 \<and> result_type r2 = FAILED
    \<longrightarrow> nonempty_message r2)
 \<and> (described (join_node (join_client j) (join_fqdn j)
                 (join_ip j @ '':'' @ str_nat (join_port j)) (join_token j))
      \<and> ClusterJoinNodeStep_run j = Inr r3 \<and> result_type r3 = FAILED
    \<longrightarrow> nonempty_message r3)
 \<and> (described (BootstrapJujuStep_run_body cloud env)
      \<and> BootstrapJujuStep_run cloud env = Inr r4 \<and> result_type r4 = FAILED
    \<longrightarrow> nonempty_message r4)
 \<and> (CreateModelStep_run h5 model5 loop5 connect5 add5 = (Inr r5, h5')
      \<and> result_type r5 = FAILED
    \<longrightarrow> nonempty_message r5)
 \<and> (DeployBundleStep_run h6 bundle_name loop6 connect6 get_model6 deploy6 block_until6
        = Some (Inr r6, h6')
      \<and> result_type r6 = FAILED
    \<longrightarrow> nonempty_message r6)
 \<and> (DestroyModelStep_run h7 model7 loop7 connect7 destroy_models7 list_models7 = (Inr r7, h7')
      \<and> result_type r7 = FAILED
    \<longrightarrow> nonempty_message r7)
 \<and> (described_opt loop8
      \<and> ModelStatusStep_run h8 timeout8 loop8 connect8 get_model8 elapsed8 = Some (Inr r8, h8')
      \<and> result_type r8 = FAILED
    \<longrightarrow> nonempty_message r8)
 \<and> (described_opt loop9 \<and> described connect9 \<and> described get_model9
      \<and> described get_status9 \<and> (\<forall>t. described (json_loads9 t))
      \<and> (\<forall>v. described (write_file9 v))
      \<and> WriteModelStatusStep_run h9 loop9 connect9 get_model9 get_status9 json_loads9 write_file9
          = (Inr r9, h9')
      \<and> result_type r9 = FAILED
    \<longrightarrow> nonempty_message r9)
 \<and> (described open_file \<and> described check_call
      \<and> WriteCharmLog_run open_file check_call = Inr r10 \<and> result_type r10 = FAILED
    \<longrightarrow> nonempty_message r10)
 \<and> (described apply \<and> described_opt loop11 \<and> described connect11
      \<and> described get_model11 \<and> (\<forall>x. block_until11 = Some x \<longrightarrow> described x)
      \<and> DeployControlPlaneStep_run h11 write_tfvars apply loop11 connect11 get_model11
          block_until11 = Some (Inr r11, h11')
      \<and> result_type r11 = FAILED
    \<longrightarrow> nonempty_message r11)"
proof (intro conjI impI; elim conjE)
  show "nonempty_message r1"
    if "described (bootstrap_cluster (init_client i) (init_fqdn i)
                 (init_ip i @ '':'' @ str_nat (init_port i)))"
      "ClusterInitStep_run i = Inr r1" "result_type r1 = FAILED"
    using that by (rule ClusterInitStep_failed_message)
  show "nonempty_message r2"
    if "described (add_node (add_client a) (add_node_name a) (add_role a))"
      "ClusterAddNodeStep_run a = Inr r2" "result_type r2 = FAILED"
    using that by (rule ClusterAddNodeStep_failed_message)
  show "nonempty_message r3"
    if "described (join_node (join_client j) (join_fqdn j)
                 (join_ip j @ '':'' @ str_nat (join_port j)) (join_token j))"
      "ClusterJoinNodeStep_run j = Inr r3" "result_type r3 = FAILED"
    using that by (rule ClusterJoinNodeStep_failed_message)
  show "nonempty_message r4"
    if "described (BootstrapJujuStep_run_body cloud env)"
      "BootstrapJujuStep_run cloud env = Inr r4" "result_type r4 = FAILED"
    using that by (rule BootstrapJujuStep_failed_message)
  show "nonempty_message r5"
    if "CreateModelStep_run h5 model5 loop5 connect5 add5 = (Inr r5, h5')"
      "result_type r5 = FAILED"
    using that by (rule CreateModelStep_failed_message)
  show "nonempty_message r6"
    if "DeployBundleStep_run h6 bundle_name loop6 connect6 get_model6 deploy6 block_until6
        = Some (Inr r6, h6')" "result_type r6 = FAILED"
    using that by (rule DeployBundleStep_failed_message)
  show "nonempty_message r7"
    if "DestroyModelStep_run h7 model7 loop7 connect7 destroy_models7 list_models7 = (Inr r7, h7')"
      "result_type r7 = FAILED"
    using that by (rule DestroyModelStep_failed_message)
  show "nonempty_message r8"
    if "described_opt loop8"
      "ModelStatusStep_run h8 timeout8 loop8 connect8 get_model8 elapsed8 = Some (Inr r8, h8')"
      "result_type r8 = FAILED"
    using that by (rule ModelStatusStep_failed_message)
  show "nonempty_message r9"
    if "described_opt loop9" "described connect9" "described get_model9"
      "described get_status9" "\<forall>t. described (json_loads9 t)" "\<forall>v. described (write_file9 v)"
      "WriteModelStatusStep_run h9 loop9 connect9 get_model9 get_status9 json_loads9 write_file9
          = (Inr r9, h9')" "result_type r9 = FAILED"
    using that by (rule WriteModelStatusStep_failed_message)
  show "nonempty_message r10"
    if "described open_file" "described check_call"
      "WriteCharmLog_run open_file check_call = Inr r10" "result_type r10 = FAILED"
    using that by (rule WriteCharmLog_failed_message)
  show "nonempty_message r11"
    if "described apply" "described_opt loop11" "described connect11"
      "described get_model11" "\<forall>x. block_until11 = Some x \<longrightarrow> described x"
      "DeployControlPlaneStep_run h11 write_tfvars apply loop11 connect11 get_model11
          block_until11 = Some (Inr r11, h11')" "result_type r11 = FAILED"
    using that by (rule DeployControlPlaneStep_failed_message)
qed

theorem failed_result_message_witness:
  "described (bootstrap_cluster unclassified_client ''node-a'' ''10.0.0.5:7000'')
 \<and> ClusterInitStep_run
       \<lparr>init_port = 7000, init_client = unclassified_client, init_fqdn = ''node-a'',
        init_ip = ''10.0.0.5''\<rparr>
     = Inr \<lparr>result_type = FAILED, message = Str ''500 Server Error''\<rparr>
 \<and> nonempty_message \<lparr>result_type = FAILED, message = Str ''500 Server Error''\<rparr>"
proof -
  let ?s = "\<lparr>init_port = 7000, init_client = unclassified_client, init_fqdn = ''node-a'',
        init_ip = ''10.0.0.5''\<rparr>"
  let ?r = "\<lparr>result_type = FAILED, message = Str ''500 Server Error''\<rparr>"
  have addr: "init_ip ?s @ '':'' @ str_nat (init_port ?s) = ''10.0.0.5:7000''"
    by (simp add: str_nat.simps digit_char_def)
  have d: "described (bootstrap_cluster unclassified_client ''node-a'' ''10.0.0.5:7000'')"
    by (simp add: described_def unclassified_client_def)
  have e: "ClusterInitStep_run ?s = Inr ?r"
    by (simp add: ClusterInitStep_run_def unclassified_client_def mk_Result_def)
  have imp: "described (bootstrap_cluster (init_client ?s) (init_fqdn ?s)
                 (init_ip ?s @ '':'' @ str_nat (init_port ?s)))
      \<and> ClusterInitStep_run ?s = Inr ?r \<and> result_type ?r = FAILED
    \<longrightarrow> nonempty_message ?r"
    using failed_result_message[where i = "?s" and ?r1.0 = "?r"] by (rule conjunct1)
  from imp d e addr have "nonempty_message ?r" by simp
  with d e show ?thesis by blast
qed

text \<open>
  The claim as it was stated fails: when the call of \<open>ClusterInitStep.run\<close> raises an
  exception whose description is the empty string, the Result is FAILED with the empty
  message.
\<close>

theorem failed_result_empty_message_counterexample:
  "ClusterInitStep_run
       \<lparr>init_port = 7000, init_client = silent_client, init_fqdn = ''node-a'',
        init_ip = ''10.0.0.5''\<rparr>
     = Inr \<lparr>result_type = FAILED, message = Str []\<rparr>
 \<and> \<not> nonempty_message \<lparr>result_type = FAILED, message = Str []\<rparr>"
  by (simp add: ClusterInitStep_run_def silent_client_def mk_Result_def nonempty_message_def)

end
